theory Spec2Isabelle
  imports
    Main
    "HOL-Library.Word"
    "HOL-Library.Sublist"
    "HOL-Library.Char_ord"
    "HOL-Library.List_Lexorder"
begin

section \<open>Data model\<close>

subsection \<open>FileInfo (FileInfo.h)\<close>

text \<open>
  The struct \<^verbatim>\<open>FileInfo\<close>. The field \<^verbatim>\<open>size\<close> is a \<^verbatim>\<open>std::uintmax_t\<close>, a 64-bit unsigned
  integer; it is called \<open>size_f\<close> here because \<open>size\<close> is a constant of HOL. A
  \<^verbatim>\<open>fs::path\<close> is kept as the string it was built from.
\<close>

record FileInfo =
  name :: string
  path :: string
  extension :: string
  size_f :: "64 word"
  hash :: string

text \<open>The four-argument constructor and the default constructor.\<close>

definition FileInfo_init :: "string \<Rightarrow> string \<Rightarrow> string \<Rightarrow> 64 word \<Rightarrow> FileInfo" where
  "FileInfo_init n p ext s =
     \<lparr>name = n, path = p, extension = ext, size_f = s, hash = ''''\<rparr>"


subsection \<open>Logger (Logger.cpp)\<close>

text \<open>
  The singleton logger is a piece of state that is passed along. \<^verbatim>\<open>Logger::log\<close> appends
  one line to the log file when the file is open and does nothing otherwise. A line is
  kept as the message it was given, without its time stamp. What the program prints on
  \<^verbatim>\<open>std::cout\<close> and \<^verbatim>\<open>std::cerr\<close> is left out.
\<close>

record Logger =
  logFile_is_open :: bool
  logFile :: "string list"

definition Logger_log :: "string \<Rightarrow> Logger \<Rightarrow> Logger" where
  "Logger_log message L =
     (if logFile_is_open L then L\<lparr>logFile := logFile L @ [message]\<rparr> else L)"

subsection \<open>Exceptions and the filesystem provider\<close>

text \<open>
  A call of \<^verbatim>\<open>std::filesystem\<close> either returns or throws. What is thrown is a value:
  \<open>filesystem_error\<close> carries the text of \<^verbatim>\<open>what()\<close>; \<open>other_exception\<close> stands for
  anything that is not a \<^verbatim>\<open>fs::filesystem_error\<close> and so passes a
  \<^verbatim>\<open>catch (const fs::filesystem_error&)\<close>.
\<close>

datatype exn = filesystem_error string | other_exception

text \<open>
  A directory entry as the scan uses it, and the sequence a \<^verbatim>\<open>fs::directory_iterator\<close>
  runs through: it ends, or it throws (from the constructor when \<open>Fail\<close> comes first,
  from an increment otherwise), or it yields an entry.
\<close>

record dir_entry =
  entry_path :: string
  entry_is_regular_file :: "exn + bool"

datatype dir_stream = End | Fail exn | Entry dir_entry dir_stream

text \<open>
  The operations of \<^verbatim>\<open>std::filesystem\<close> that the program calls are parameters: a record
  of functions over a type \<open>'w\<close> of filesystem states. Queries leave the state as it is;
  \<open>fs_create_directories\<close> and \<open>fs_rename\<close> return the new state together with the
  value returned or the exception thrown.
\<close>

record 'w filesystem =
  fs_exists :: "'w \<Rightarrow> string \<Rightarrow> exn + bool"
  fs_is_directory :: "'w \<Rightarrow> string \<Rightarrow> exn + bool"
  fs_file_size :: "'w \<Rightarrow> string \<Rightarrow> exn + 64 word"
  fs_directory_iterator :: "'w \<Rightarrow> string \<Rightarrow> dir_stream"
  fs_create_directories :: "'w \<Rightarrow> string \<Rightarrow> 'w \<times> (exn + bool)"
  fs_rename :: "'w \<Rightarrow> string \<Rightarrow> string \<Rightarrow> 'w \<times> (exn + unit)"

text \<open>
  A provider whose three operations used by the sorter never throw anything but a
  \<^verbatim>\<open>fs::filesystem_error\<close>, which is how \<^verbatim>\<open>std::filesystem\<close> reports a failed
  operation.
\<close>

definition throws_only_filesystem_error :: "'w filesystem \<Rightarrow> bool" where
  "throws_only_filesystem_error P \<longleftrightarrow>
     (\<forall>w p. fs_exists P w p \<noteq> Inl other_exception) \<and>
     (\<forall>w p. snd (fs_create_directories P w p) \<noteq> Inl other_exception) \<and>
     (\<forall>w p q. snd (fs_rename P w p q) \<noteq> Inl other_exception)"

section \<open>Library functions the program calls\<close>

text \<open>
  \<^verbatim>\<open>tolower\<close> in the "C" locale (the program never sets another one): the letters
  \<^verbatim>\<open>A\<close> to \<^verbatim>\<open>Z\<close> (65 to 90) move up by 32, every other byte stays.
\<close>

definition tolower :: "char \<Rightarrow> char" where
  "tolower c =
     (if 65 \<le> (of_char c :: nat) \<and> (of_char c :: nat) \<le> 90
      then char_of (of_char c + (32 :: nat)) else c)"

text \<open>
  \<^verbatim>\<open>std::string::find_last_of(char)\<close>: the last position of the character, \<open>None\<close> for
  \<^verbatim>\<open>npos\<close>.
\<close>

fun find_last_of :: "string \<Rightarrow> char \<Rightarrow> nat option" where
  "find_last_of [] c = None"
| "find_last_of (x # xs) c =
     (case find_last_of xs c of
        Some i \<Rightarrow> Some (Suc i)
      | None \<Rightarrow> if x = c then Some 0 else None)"

text \<open>
  \<^verbatim>\<open>std::string::find(str)\<close>: the first position at which \<open>str\<close> occurs, \<open>None\<close> for
  \<^verbatim>\<open>npos\<close>. The empty string occurs at position 0 of every string.
\<close>

fun find_str :: "string \<Rightarrow> string \<Rightarrow> nat option" where
  "find_str [] str = (if str = [] then Some 0 else None)"
| "find_str (c # cs) str =
     (if prefix str (c # cs) then Some 0
      else case find_str cs str of None \<Rightarrow> None | Some i \<Rightarrow> Some (Suc i))"

text \<open>\<^verbatim>\<open>std::to_string\<close> of an unsigned integer: its decimal digits.\<close>

definition digit_char :: "nat \<Rightarrow> char" where
  "digit_char d = ''0123456789'' ! d"

fun to_string :: "nat \<Rightarrow> string" where
  "to_string n =
     (if n < 10 then [digit_char n]
      else to_string (n div 10) @ [digit_char (n mod 10)])"

declare to_string.simps [simp del]


text \<open>
  A \<^verbatim>\<open>std::map\<close> with string keys is the list of its entries in the order of the keys,
  which is the order the map is iterated in. \<open>map_subscript k d f\<close> is
  \<^verbatim>\<open>operator[]\<close> followed by a change of the mapped value: the entry of \<open>k\<close> is created
  with the default value \<open>d\<close> when the key is new, and \<open>f\<close> is applied to the mapped
  value. \<open>map_find\<close> is \<^verbatim>\<open>find\<close>, with \<open>None\<close> for \<^verbatim>\<open>end()\<close>.
\<close>

fun map_subscript ::
  "string \<Rightarrow> 'v \<Rightarrow> ('v \<Rightarrow> 'v) \<Rightarrow> (string \<times> 'v) list \<Rightarrow> (string \<times> 'v) list" where
  "map_subscript k d f [] = [(k, f d)]"
| "map_subscript k d f ((k', v) # m) =
     (if k = k' then (k', f v) # m
      else if k < k' then (k, f d) # (k', v) # m
      else (k', v) # map_subscript k d f m)"

fun map_find :: "string \<Rightarrow> (string \<times> 'v) list \<Rightarrow> 'v option" where
  "map_find k [] = None"
| "map_find k ((k', v) # m) = (if k = k' then Some v else map_find k m)"


section \<open>FileManager (FileManager.cpp)\<close>


definition extractExtension :: "string \<Rightarrow> string" where
  "extractExtension filename =
     (case find_last_of filename (CHR ''.'') of
        None \<Rightarrow> ''''
      | Some dotPos \<Rightarrow>
          if dotPos > 0 then map tolower (drop dotPos filename) else '''')"





section \<open>FileSorter (FileSorter.cpp)\<close>

text \<open>
  \<^verbatim>\<open>initializeCategories\<close> is a sequence of assignments
  \<^verbatim>\<open>extensionCategories[key] = value\<close>; \<open>category_assignments\<close> lists them in the order
  they are executed, and \<open>initializeCategories\<close> executes them on a map. The member
  \<^verbatim>\<open>extensionCategories\<close> is empty before the constructor runs and is written nowhere
  else.
\<close>

definition category_assignments :: "(string \<times> string) list" where
  "category_assignments =
     [
      (''.txt'', ''Documents''), (''.pdf'', ''Documents''), (''.doc'', ''Documents''),
      (''.docx'', ''Documents''), (''.xlsx'', ''Documents''), (''.xls'', ''Documents''),
      (''.ppt'', ''Documents''), (''.pptx'', ''Documents''), (''.odt'', ''Documents''),
      (''.rtf'', ''Documents''), (''.jpg'', ''Images''), (''.jpeg'', ''Images''),
      (''.png'', ''Images''), (''.gif'', ''Images''), (''.bmp'', ''Images''),
      (''.svg'', ''Images''), (''.ico'', ''Images''), (''.tiff'', ''Images''),
      (''.webp'', ''Images''), (''.mp4'', ''Videos''), (''.avi'', ''Videos''),
      (''.mkv'', ''Videos''), (''.mov'', ''Videos''), (''.wmv'', ''Videos''),
      (''.flv'', ''Videos''), (''.webm'', ''Videos''), (''.m4v'', ''Videos''),
      (''.mp3'', ''Audio''), (''.wav'', ''Audio''), (''.flac'', ''Audio''),
      (''.aac'', ''Audio''), (''.ogg'', ''Audio''), (''.wma'', ''Audio''),
      (''.m4a'', ''Audio''), (''.zip'', ''Archives''), (''.rar'', ''Archives''),
      (''.7z'', ''Archives''), (''.tar'', ''Archives''), (''.gz'', ''Archives''),
      (''.bz2'', ''Archives''), (''.xz'', ''Archives''), (''.cpp'', ''Code''),
      (''.h'', ''Code''), (''.hpp'', ''Code''), (''.c'', ''Code''),
      (''.py'', ''Code''), (''.java'', ''Code''), (''.js'', ''Code''),
      (''.ts'', ''Code''), (''.html'', ''Code''), (''.css'', ''Code''),
      (''.php'', ''Code''), (''.rb'', ''Code''), (''.go'', ''Code''),
      (''.rs'', ''Code''), (''.exe'', ''Executables''), (''.dll'', ''Executables''),
      (''.so'', ''Executables''), (''.app'', ''Executables''), (''.deb'', ''Executables''),
      (''.rpm'', ''Executables'')
     ]"

definition initializeCategories :: "(string \<times> string) list \<Rightarrow> (string \<times> string) list" where
  "initializeCategories m =
     fold (\<lambda>(key, val). map_subscript key [] (\<lambda>_. val)) category_assignments m"

definition extensionCategories :: "(string \<times> string) list" where
  "extensionCategories = initializeCategories []"

definition getCategoryForExtension :: "string \<Rightarrow> string" where
  "getCategoryForExtension ext =
     (case map_find ext extensionCategories of
        Some category \<Rightarrow> category
      | None \<Rightarrow> ''Others'')"

definition createDirectoryIfNotExists ::
  "'w filesystem \<Rightarrow> string \<Rightarrow> 'w \<times> Logger \<Rightarrow> ('w \<times> Logger) \<times> (exn + bool)" where
  "createDirectoryIfNotExists P dirPath st =
     (case st of (w, L) \<Rightarrow>
        (case fs_exists P w dirPath of
           Inl (filesystem_error e) \<Rightarrow>
             ((w, Logger_log (''ERROR creating directory '' @ dirPath @ '': '' @ e) L),
              Inr False)
         | Inl other_exception \<Rightarrow> ((w, L), Inl other_exception)
         | Inr True \<Rightarrow> ((w, L), Inr True)
         | Inr False \<Rightarrow>
             (case fs_create_directories P w dirPath of
                (w1, Inl (filesystem_error e)) \<Rightarrow>
                  ((w1, Logger_log (''ERROR creating directory '' @ dirPath @ '': '' @ e) L),
                   Inr False)
              | (w1, Inl other_exception) \<Rightarrow> ((w1, L), Inl other_exception)
              | (w1, Inr created) \<Rightarrow> ((w1, L), Inr created))))"

text \<open>
  The two paths \<^verbatim>\<open>organizeByExtension\<close> computes for a record, and the bytes that stand
  between the file name and the category in the source's message of a move.
\<close>

definition categoryPath_of :: "string \<Rightarrow> FileInfo \<Rightarrow> string" where
  "categoryPath_of baseDirectory file =
     baseDirectory @ ''/'' @ getCategoryForExtension (extension file)"

definition destPath_of :: "string \<Rightarrow> FileInfo \<Rightarrow> string" where
  "destPath_of baseDirectory file = categoryPath_of baseDirectory file @ ''/'' @ name file"

definition arrow :: string where
  "arrow = [CHR 0xC3, CHR 0xA2, CHR 0xE2, CHR 0x80, CHR 0xA0, CHR 0xE2, CHR 0x80, CHR 0x99]"

text \<open>
  The body of the \<^verbatim>\<open>try\<close> block for one record. The result is the state reached and
  either the exception that left the block or whether the record was moved (\<open>False\<close>
  for the two \<^verbatim>\<open>continue\<close> statements).
\<close>

definition organize_try ::
  "'w filesystem \<Rightarrow> FileInfo \<Rightarrow> string \<Rightarrow> 'w \<times> Logger \<Rightarrow> ('w \<times> Logger) \<times> (exn + bool)" where
  "organize_try P file baseDirectory st =
     (let categoryPath = categoryPath_of baseDirectory file
      in case createDirectoryIfNotExists P categoryPath st of
           (st1, Inl e) \<Rightarrow> (st1, Inl e)
         | ((w1, L1), Inr False) \<Rightarrow>
             ((w1, Logger_log (''ERROR: Failed to create directory: '' @ categoryPath) L1),
              Inr False)
         | ((w1, L1), Inr True) \<Rightarrow>
             (let destPath = destPath_of baseDirectory file
              in case fs_exists P w1 destPath of
                   Inl e \<Rightarrow> ((w1, L1), Inl e)
                 | Inr True \<Rightarrow>
                     ((w1, Logger_log (''SKIPPED: File already exists: '' @ destPath) L1),
                      Inr False)
                 | Inr False \<Rightarrow>
                     (case fs_rename P w1 (path file) destPath of
                        (w2, Inl e) \<Rightarrow> ((w2, L1), Inl e)
                      | (w2, Inr u) \<Rightarrow>
                          ((w2, Logger_log (''Moved: '' @ name file @ '' '' @ arrow @ '' '' @
                                            getCategoryForExtension (extension file) @ ''/'')
                                  L1),
                           Inr True))))"

text \<open>The \<^verbatim>\<open>try\<close> block with its handler, which catches \<^verbatim>\<open>fs::filesystem_error\<close> only.\<close>

definition organize_file ::
  "'w filesystem \<Rightarrow> FileInfo \<Rightarrow> string \<Rightarrow> 'w \<times> Logger \<Rightarrow> ('w \<times> Logger) \<times> (exn + bool)" where
  "organize_file P file baseDirectory st =
     (case organize_try P file baseDirectory st of
        ((w1, L1), Inl (filesystem_error e)) \<Rightarrow>
          ((w1, Logger_log (''ERROR moving '' @ name file @ '': '' @ e) L1), Inr False)
      | (st1, Inl other_exception) \<Rightarrow> (st1, Inl other_exception)
      | (st1, Inr moved) \<Rightarrow> (st1, Inr moved))"

text \<open>
  The loop over the records, with the counter \<^verbatim>\<open>movedCount\<close>. The counter is an
  \<^verbatim>\<open>int\<close>; it is incremented at most once for each record.
\<close>

fun organize_loop ::
  "'w filesystem \<Rightarrow> FileInfo list \<Rightarrow> string \<Rightarrow> int \<Rightarrow> 'w \<times> Logger \<Rightarrow>
   ('w \<times> Logger) \<times> (exn + int)" where
  "organize_loop P [] baseDirectory movedCount st = (st, Inr movedCount)"
| "organize_loop P (file # files) baseDirectory movedCount st =
     (case organize_file P file baseDirectory st of
        (st1, Inl e) \<Rightarrow> (st1, Inl e)
      | (st1, Inr moved) \<Rightarrow>
          organize_loop P files baseDirectory
            (if moved then movedCount + 1 else movedCount) st1)"

definition organizeByExtension ::
  "'w filesystem \<Rightarrow> FileInfo list \<Rightarrow> string \<Rightarrow> 'w \<times> Logger \<Rightarrow>
   ('w \<times> Logger) \<times> (exn + int)" where
  "organizeByExtension P files baseDirectory st =
     (case st of (w, L) \<Rightarrow>
        (case organize_loop P files baseDirectory 0
                (w, Logger_log (''Starting file organization in: '' @ baseDirectory) L) of
           (st1, Inl e) \<Rightarrow> (st1, Inl e)
         | ((w1, L1), Inr movedCount) \<Rightarrow>
             ((w1, Logger_log (''Organization complete: '' @ to_string (nat movedCount) @
                               '' files moved'') L1),
              Inr movedCount)))"

section \<open>FileSearcher (FileSearcher.cpp)\<close>

definition toLowercase :: "string \<Rightarrow> string" where
  "toLowercase str = map tolower str"

definition generateSimpleHash :: "FileInfo \<Rightarrow> string" where
  "generateSimpleHash file = to_string (unat (size_f file)) @ ''_'' @ name file"

fun searchByName_loop ::
  "FileInfo list \<Rightarrow> string \<Rightarrow> FileInfo list \<times> Logger \<Rightarrow> FileInfo list \<times> Logger" where
  "searchByName_loop [] lowerSearchTerm (results, L) = (results, L)"
| "searchByName_loop (file # files) lowerSearchTerm (results, L) =
     (let lowerFileName = toLowercase (name file)
      in if find_str lowerFileName lowerSearchTerm \<noteq> None
         then searchByName_loop files lowerSearchTerm
                (results @ [file], Logger_log (''Match found: '' @ name file) L)
         else searchByName_loop files lowerSearchTerm (results, L))"

definition searchByName ::
  "FileInfo list \<Rightarrow> string \<Rightarrow> Logger \<Rightarrow> FileInfo list \<times> Logger" where
  "searchByName files searchTerm L =
     (let lowerSearchTerm = toLowercase searchTerm
      in case searchByName_loop files lowerSearchTerm
                ([], Logger_log (''Searching for files containing: '' @ searchTerm) L) of
           (results, L1) \<Rightarrow>
             (results,
              Logger_log (''Search complete: '' @ to_string (length results) @
                          '' matches found'') L1))"

text \<open>The first loop of \<^verbatim>\<open>findDuplicates\<close>: \<^verbatim>\<open>hashGroups[hash].push_back(file)\<close>.\<close>

fun group_by_hash ::
  "FileInfo list \<Rightarrow> (string \<times> FileInfo list) list \<Rightarrow> (string \<times> FileInfo list) list" where
  "group_by_hash [] hashGroups = hashGroups"
| "group_by_hash (file # files) hashGroups =
     group_by_hash files
       (map_subscript (generateSimpleHash file) [] (\<lambda>grp. grp @ [file]) hashGroups)"

text \<open>
  The second loop, over the entries of \<^verbatim>\<open>hashGroups\<close> in the order of their keys:
  \<^verbatim>\<open>duplicates[hash] = group\<close> for the groups of two or more.
\<close>

fun filter_groups ::
  "(string \<times> FileInfo list) list \<Rightarrow> (string \<times> FileInfo list) list \<times> Logger \<Rightarrow>
   (string \<times> FileInfo list) list \<times> Logger" where
  "filter_groups [] (duplicates, L) = (duplicates, L)"
| "filter_groups ((h, grp) # hashGroups) (duplicates, L) =
     (if length grp \<ge> 2
      then filter_groups hashGroups
             (map_subscript h [] (\<lambda>_. grp) duplicates,
              Logger_log (''Duplicate group found: '' @ to_string (length grp) @
                          '' files'') L)
      else filter_groups hashGroups (duplicates, L))"

definition findDuplicates ::
  "FileInfo list \<Rightarrow> Logger \<Rightarrow> (string \<times> FileInfo list) list \<times> Logger" where
  "findDuplicates files L =
     (let L0 = Logger_log (''Starting duplicate detection on '' @
                           to_string (length files) @ '' files'') L;
          hashGroups = group_by_hash files []
      in case filter_groups hashGroups ([], L0) of
           (duplicates, L1) \<Rightarrow>
             (duplicates,
              Logger_log (''Duplicate detection complete: '' @
                          to_string (length duplicates) @ '' groups found'') L1))"

section \<open>Menu (Menu.cpp)\<close>

text \<open>
  \<^verbatim>\<open>Menu::handleSearchFiles\<close>, with the line read from the user as an argument. The
  result says which of the three ways the handler took: no records to search, the empty
  term refused, or the search run and its results displayed.
\<close>

datatype search_outcome = NoFilesScanned | EmptyTermRejected | Displayed "FileInfo list"

definition handleSearchFiles ::
  "FileInfo list \<Rightarrow> string \<Rightarrow> Logger \<Rightarrow> search_outcome \<times> Logger" where
  "handleSearchFiles files searchTerm L =
     (if files = [] then (NoFilesScanned, L)
      else if searchTerm = [] then (EmptyTermRejected, L)
      else case searchByName files searchTerm L of
             (results, L1) \<Rightarrow> (Displayed results, L1))"

section \<open>An in-memory filesystem and example inputs\<close>

text \<open>
  One provider, on which the results below are applied to concrete inputs: the
  filesystem is a list of paths with what is found there. A directory is created with
  its missing ancestors unless a regular file is in the way; a file is renamed when it
  exists and the parent of its new path is a directory; a directory that may not be
  read makes the directory iterator throw.
\<close>

datatype node = Directory | LockedDirectory | RegularFile string

type_synonym mem_world = "(string \<times> node) list"

text \<open>\<open>path_prefixes [] p\<close> lists \<open>p\<close> and its ancestors, the shortest first.\<close>

fun path_prefixes :: "string \<Rightarrow> string \<Rightarrow> string list" where
  "path_prefixes acc [] = (if acc = [] then [] else [acc])"
| "path_prefixes acc (c # cs) =
     (if c = CHR ''/'' \<and> acc \<noteq> [] then acc # path_prefixes (acc @ [c]) cs
      else path_prefixes (acc @ [c]) cs)"

fun mem_mkdirs :: "string list \<Rightarrow> mem_world \<Rightarrow> mem_world \<times> (exn + bool)" where
  "mem_mkdirs [] w = (w, Inr False)"
| "mem_mkdirs (q # qs) w =
     (case map_of w q of
        Some (RegularFile c) \<Rightarrow> (w, Inl (filesystem_error (q @ '': Not a directory'')))
      | Some Directory \<Rightarrow> mem_mkdirs qs w
      | Some LockedDirectory \<Rightarrow> mem_mkdirs qs w
      | None \<Rightarrow>
          (case mem_mkdirs qs ((q, Directory) # w) of
             (w', Inl e) \<Rightarrow> (w', Inl e)
           | (w', Inr b) \<Rightarrow> (w', Inr True)))"

definition parent_path :: "string \<Rightarrow> string" where
  "parent_path p = (case find_last_of p (CHR ''/'') of None \<Rightarrow> [] | Some i \<Rightarrow> take i p)"

definition mem_rename :: "mem_world \<Rightarrow> string \<Rightarrow> string \<Rightarrow> mem_world \<times> (exn + unit)" where
  "mem_rename w src dst =
     (case map_of w src of
        None \<Rightarrow> (w, Inl (filesystem_error (src @ '': No such file or directory'')))
      | Some n \<Rightarrow>
          if map_of w (parent_path dst) \<noteq> Some Directory
          then (w, Inl (filesystem_error (dst @ '': Not a directory'')))
          else ((dst, n) # filter (\<lambda>(q, n'). q \<noteq> src \<and> q \<noteq> dst) w, Inr ()))"

definition mem_directory_iterator :: "mem_world \<Rightarrow> string \<Rightarrow> dir_stream" where
  "mem_directory_iterator w d =
     (if map_of w d = Some Directory
      then foldr (\<lambda>(p, n) s.
                    if parent_path p = d
                    then Entry \<lparr>entry_path = p,
                                 entry_is_regular_file =
                                   Inr (n \<noteq> Directory \<and> n \<noteq> LockedDirectory)\<rparr> s
                    else s) w End
      else if map_of w d = Some LockedDirectory
      then Fail (filesystem_error (d @ '': Permission denied''))
      else Fail (filesystem_error (d @ '': Not a directory'')))"

definition mem_fs :: "mem_world filesystem" where
  "mem_fs =
     \<lparr>fs_exists = (\<lambda>w p. Inr (map_of w p \<noteq> None)),
      fs_is_directory =
        (\<lambda>w p. Inr (map_of w p = Some Directory \<or> map_of w p = Some LockedDirectory)),
      fs_file_size =
        (\<lambda>w p. case map_of w p of
                  Some (RegularFile c) \<Rightarrow> Inr (word_of_nat (length c))
                | Some Directory \<Rightarrow> Inl (filesystem_error (p @ '': Is a directory''))
                | Some LockedDirectory \<Rightarrow> Inl (filesystem_error (p @ '': Is a directory''))
                | None \<Rightarrow> Inl (filesystem_error (p @ '': No such file or directory''))),
      fs_directory_iterator = mem_directory_iterator,
      fs_create_directories = (\<lambda>w p. mem_mkdirs (path_prefixes [] p) w),
      fs_rename = mem_rename\<rparr>"

text \<open>
  A directory \<^verbatim>\<open>/data\<close> with two files, one of which already has a namesake in
  \<^verbatim>\<open>/data/Documents\<close>; the same filesystem after \<^verbatim>\<open>a.txt\<close> was moved; and four records,
  of which \<open>example_gone\<close> describes a file that is no longer there and
  \<open>example_a_copy\<close> has the name and size of \<open>example_a\<close>.
\<close>

definition example_world :: mem_world where
  "example_world =
     [(''/data'', Directory),
      (''/data/a.txt'', RegularFile ''0123456789''),
      (''/data/c.txt'', RegularFile ''new''),
      (''/data/Documents'', Directory),
      (''/data/Documents/c.txt'', RegularFile ''old''),
      (''/locked'', LockedDirectory)]"

definition example_world_organized :: mem_world where
  "example_world_organized =
     [(''/data/Documents/a.txt'', RegularFile ''0123456789''),
      (''/data'', Directory),
      (''/data/c.txt'', RegularFile ''new''),
      (''/data/Documents'', Directory),
      (''/data/Documents/c.txt'', RegularFile ''old''),
      (''/locked'', LockedDirectory)]"

definition example_a :: FileInfo where
  "example_a = FileInfo_init ''a.txt'' ''/data/a.txt'' ''.txt'' 10"

definition example_c :: FileInfo where
  "example_c = FileInfo_init ''c.txt'' ''/data/c.txt'' ''.txt'' 3"

definition example_gone :: FileInfo where
  "example_gone = FileInfo_init ''gone.png'' ''/data/gone.png'' ''.png'' 7"

definition example_logger :: Logger where
  "example_logger = \<lparr>logFile_is_open = True, logFile = []\<rparr>"


definition example_a_copy :: FileInfo where
  "example_a_copy = FileInfo_init ''a.txt'' ''/backup/a.txt'' ''.txt'' 10"

section \<open>Properties of the library functions\<close>

subsection \<open>Decimal digits\<close>

lemma digit_char_cases:
  assumes "d < 10"
  shows "d = 0 \<or> d = 1 \<or> d = 2 \<or> d = 3 \<or> d = 4 \<or> d = 5 \<or> d = 6 \<or> d = 7 \<or> d = 8 \<or> d = (9::nat)"
  using assms by arith

lemma digit_char_not_underscore: "d < 10 \<Longrightarrow> digit_char d \<noteq> CHR ''_''"
  using digit_char_cases [of d] by (auto simp: digit_char_def)

lemma digit_char_inj:
  assumes "a < 10" and "b < 10" and "digit_char a = digit_char b"
  shows "a = b"
  using digit_char_cases [OF assms(1)] digit_char_cases [OF assms(2)] assms(3)
  by (elim disjE) (simp_all add: digit_char_def)

lemma to_string_not_Nil: "to_string n \<noteq> []"
  by (subst to_string.simps) simp

lemma to_string_no_underscore: "CHR ''_'' \<notin> set (to_string n)"
proof (induction n rule: to_string.induct)
  case (1 n)
  show ?case
  proof (cases "n < 10")
    case True
    then show ?thesis
      using digit_char_not_underscore [of n] by (subst to_string.simps) auto
  next
    case False
    have "n mod 10 < 10" by simp
    then have "digit_char (n mod 10) \<noteq> CHR ''_''" by (rule digit_char_not_underscore)
    with False "1.IH" show ?thesis
      by (subst to_string.simps) auto
  qed
qed

text \<open>Two numbers with the same digits are equal: the last digit and the rest agree.\<close>

lemma to_string_inj: "to_string a = to_string b \<Longrightarrow> a = b"
proof (induction a arbitrary: b rule: to_string.induct)
  case (1 a)
  show ?case
  proof (cases "a < 10")
    case a_small: True
    show ?thesis
    proof (cases "b < 10")
      case True
      with a_small "1.prems" show ?thesis
        by (simp add: to_string.simps [of a] to_string.simps [of b] digit_char_inj)
    next
      case False
      with a_small "1.prems" to_string_not_Nil [of "b div 10"] show ?thesis
        by (simp add: to_string.simps [of a] to_string.simps [of b])
    qed
  next
    case a_big: False
    show ?thesis
    proof (cases "b < 10")
      case True
      with a_big "1.prems" to_string_not_Nil [of "a div 10"] show ?thesis
        by (simp add: to_string.simps [of a] to_string.simps [of b])
    next
      case False
      with a_big "1.prems"
      have eq: "to_string (a div 10) = to_string (b div 10)"
        and dg: "digit_char (a mod 10) = digit_char (b mod 10)"
        by (simp_all add: to_string.simps [of a] to_string.simps [of b])
      from "1.IH" [OF a_big eq] have "a div 10 = b div 10" .
      moreover from dg have "a mod 10 = b mod 10"
        by (intro digit_char_inj) simp_all
      ultimately show ?thesis
        by (metis div_mult_mod_eq)
    qed
  qed
qed

lemma split_at_separator:
  "c \<notin> set a \<Longrightarrow> c \<notin> set b \<Longrightarrow> a @ c # x = b @ c # y \<Longrightarrow> a = b \<and> x = y"
proof (induction a arbitrary: b)
  case Nil
  then show ?case by (cases b) auto
next
  case (Cons u a)
  then show ?case by (cases b) auto
qed

subsection \<open>Maps with string keys\<close>

text \<open>
  The two map operations keep the keys in strictly increasing order, and on such a list
  they are the update and the lookup of a finite map.
\<close>

lemma map_find_None_iff: "map_find k m = None \<longleftrightarrow> k \<notin> fst ` set m"
  by (induction m) (auto split: if_splits)

lemma map_find_Some_iff:
  "distinct (map fst m) \<Longrightarrow> map_find k m = Some v \<longleftrightarrow> (k, v) \<in> set m"
  by (induction m) (auto simp: rev_image_eqI split: if_splits)

lemma map_subscript_keys:
  "fst ` set (map_subscript k d f m) = insert k (fst ` set m)"
proof (induction m)
  case Nil
  show ?case by simp
next
  case (Cons p m)
  obtain k' v where p: "p = (k', v)" by (cases p)
  show ?case using Cons.IH p by auto
qed

lemma map_subscript_sorted:
  "sorted_wrt (<) (map fst m) \<Longrightarrow> sorted_wrt (<) (map fst (map_subscript k d f m))"
proof (induction m)
  case Nil
  show ?case by simp
next
  case (Cons p m)
  obtain k' v where p: "p = (k', v)" by (cases p)
  from Cons.prems p have tl: "sorted_wrt (<) (map fst m)"
    and hd: "\<forall>x \<in> fst ` set m. k' < x"
    by simp_all
  show ?case
  proof (cases "k = k'")
    case True
    with Cons.prems p show ?thesis by simp
  next
    case neq: False
    show ?thesis
    proof (cases "k < k'")
      case True
      with neq Cons.prems p show ?thesis by auto
    next
      case False
      with neq have "k' < k" by simp
      with hd have "\<forall>x \<in> fst ` set (map_subscript k d f m). k' < x"
        unfolding map_subscript_keys by simp
      with neq False p Cons.IH [OF tl] show ?thesis by simp
    qed
  qed
qed

lemma map_find_map_subscript:
  "sorted_wrt (<) (map fst m) \<Longrightarrow>
   map_find j (map_subscript k d f m) =
     (if j = k then Some (f (case map_find k m of None \<Rightarrow> d | Some v \<Rightarrow> v))
      else map_find j m)"
proof (induction m)
  case Nil
  show ?case by simp
next
  case (Cons p m)
  obtain k' v where p: "p = (k', v)" by (cases p)
  from Cons.prems p have tl: "sorted_wrt (<) (map fst m)"
    and hd: "\<forall>x \<in> fst ` set m. k' < x"
    by simp_all
  show ?case
  proof (cases "k = k'")
    case True
    with p show ?thesis by simp
  next
    case neq: False
    show ?thesis
    proof (cases "k < k'")
      case True
      with hd have "k \<notin> fst ` set m" by auto
      then have "map_find k m = None" by (simp only: map_find_None_iff not_False_eq_True)
      with True neq p show ?thesis by simp
    next
      case False
      with neq p Cons.IH [OF tl] show ?thesis by auto
    qed
  qed
qed

section \<open>The extension of a file name\<close>

text \<open>
  The extractor on every file name: a name without a dot has no extension; a name with
  something before its last dot has the lower-cased rest from that dot on; and a name
  whose only dot is its first character has no extension either.
\<close>

lemma find_last_of_absent: "c \<notin> set s \<Longrightarrow> find_last_of s c = None"
  by (induction s) auto

lemma find_last_of_last:
  "c \<notin> set post \<Longrightarrow> find_last_of (pre @ c # post) c = Some (length pre)"
  by (induction pre) (simp_all add: find_last_of_absent)

lemma tolower_dot: "tolower (CHR ''.'') = CHR ''.''"
  by (simp add: tolower_def)

lemma extractExtension_no_dot:
  "CHR ''.'' \<notin> set filename \<Longrightarrow> extractExtension filename = ''''"
  by (simp add: extractExtension_def find_last_of_absent)

lemma extractExtension_after_last_dot:
  "stem \<noteq> [] \<Longrightarrow> CHR ''.'' \<notin> set post \<Longrightarrow>
   extractExtension (stem @ CHR ''.'' # post) = CHR ''.'' # map tolower post"
  by (simp add: extractExtension_def find_last_of_last tolower_dot)

lemma extractExtension_dotfile:
  "CHR ''.'' \<notin> set post \<Longrightarrow> extractExtension (CHR ''.'' # post) = ''''"
  using find_last_of_last [of "CHR ''.''" post "[]"]
  by (simp add: extractExtension_def)

text \<open>
  C1. The extension extractor at the four file names of the specification. At
  \<^verbatim>\<open>file.txt\<close>, \<^verbatim>\<open>archive.tar.gz\<close> and \<^verbatim>\<open>README\<close> it returns \<^verbatim>\<open>.txt\<close>, \<^verbatim>\<open>.gz\<close> and the
  empty string. At \<^verbatim>\<open>.gitignore\<close> the only dot is at position 0, the test
  \<^verbatim>\<open>dotPos > 0\<close> fails, and the function returns the empty string, where the comment
  above the function and the specification both give \<^verbatim>\<open>.gitignore\<close>.
\<close>

theorem extractExtension_examples:
  "extractExtension ''file.txt'' = ''.txt'' \<and>
   extractExtension ''archive.tar.gz'' = ''.gz'' \<and>
   extractExtension ''README'' = '''' \<and>
   extractExtension ''.gitignore'' = ''''"
  by (simp add: extractExtension_def tolower_def char_of_def bit_0)

section \<open>The fingerprint\<close>

lemma generateSimpleHash_eq_iff:
  "generateSimpleHash a = generateSimpleHash b \<longleftrightarrow>
     size_f a = size_f b \<and> name a = name b"
proof
  assume "generateSimpleHash a = generateSimpleHash b"
  then have "to_string (unat (size_f a)) @ CHR ''_'' # name a =
             to_string (unat (size_f b)) @ CHR ''_'' # name b"
    by (simp add: generateSimpleHash_def)
  then have "to_string (unat (size_f a)) = to_string (unat (size_f b)) \<and> name a = name b"
    by (rule split_at_separator [OF to_string_no_underscore to_string_no_underscore])
  then show "size_f a = size_f b \<and> name a = name b"
    by (auto dest: to_string_inj simp: word_unat_eq_iff)
next
  assume "size_f a = size_f b \<and> name a = name b"
  then show "generateSimpleHash a = generateSimpleHash b"
    by (simp add: generateSimpleHash_def)
qed

text \<open>
  C10. The fingerprint is injective on size and name: two records have the same
  fingerprint if and only if they have the same size and the same name. The reason is
  that the decimal digits of the size contain no \<^verbatim>\<open>_\<close>, so the first \<^verbatim>\<open>_\<close> of a
  fingerprint ends the size.
\<close>

theorem generateSimpleHash_injective:
  "(generateSimpleHash a = generateSimpleHash b \<longleftrightarrow>
      size_f a = size_f b \<and> name a = name b) \<and>
   CHR ''_'' \<notin> set (to_string (unat (size_f a)))"
  using generateSimpleHash_eq_iff [of a b] to_string_no_underscore by blast

section \<open>The category table\<close>

lemma fold_assign_sorted:
  "sorted_wrt (<) (map fst m) \<Longrightarrow>
   sorted_wrt (<) (map fst (fold (\<lambda>(key, val). map_subscript key d (\<lambda>_. val)) xs m))"
  by (induction xs arbitrary: m) (auto simp: map_subscript_sorted)

lemma map_find_fold_assign:
  "sorted_wrt (<) (map fst m) \<Longrightarrow>
   map_find k (fold (\<lambda>(key, val). map_subscript key d (\<lambda>_. val)) xs m) =
     (case map_of (rev xs) k of Some v \<Rightarrow> Some v | None \<Rightarrow> map_find k m)"
proof (induction xs arbitrary: m)
  case Nil
  show ?case by simp
next
  case (Cons x xs)
  obtain key val where x: "x = (key, val)" by (cases x)
  have "sorted_wrt (<) (map fst (map_subscript key d (\<lambda>_. val) m))"
    using Cons.prems by (rule map_subscript_sorted)
  from Cons.IH [OF this] x Cons.prems show ?case
    by (auto simp: map_find_map_subscript map_of_append split: option.splits)
qed

lemma distinct_category_keys: "distinct (map fst category_assignments)"
  by (simp add: category_assignments_def)

lemma map_find_extensionCategories:
  "map_find ext extensionCategories = map_of (rev category_assignments) ext"
  by (simp add: extensionCategories_def initializeCategories_def map_find_fold_assign
      split: option.splits)

text \<open>
  C5. An extension that \<^verbatim>\<open>initializeCategories\<close> assigns a category is classified as
  that category, and an extension it assigns none, the empty string among them, is
  classified as \<^verbatim>\<open>Others\<close>.
\<close>

theorem getCategoryForExtension_table:
  "((ext, cat) \<in> set category_assignments \<longrightarrow> getCategoryForExtension ext = cat) \<and>
   (ext' \<notin> fst ` set category_assignments \<longrightarrow> getCategoryForExtension ext' = ''Others'') \<and>
   getCategoryForExtension '''' = ''Others''"
proof (intro conjI impI)
  assume "(ext, cat) \<in> set category_assignments"
  then have "(ext, cat) \<in> set (rev category_assignments)" by simp
  moreover have "distinct (map fst (rev category_assignments))"
    using distinct_category_keys by (simp add: distinct_rev rev_map [symmetric])
  ultimately have "map_of (rev category_assignments) ext = Some cat"
    by (simp only: map_of_eq_Some_iff)
  then show "getCategoryForExtension ext = cat"
    by (simp add: getCategoryForExtension_def map_find_extensionCategories)
next
  assume "ext' \<notin> fst ` set category_assignments"
  then have "map_of (rev category_assignments) ext' = None"
    by (simp add: map_of_eq_None_iff)
  then show "getCategoryForExtension ext' = ''Others''"
    by (simp add: getCategoryForExtension_def map_find_extensionCategories)
next
  have "'''' \<notin> fst ` set category_assignments"
    by (simp add: category_assignments_def)
  then have "map_of (rev category_assignments) '''' = None"
    by (simp add: map_of_eq_None_iff)
  then show "getCategoryForExtension '''' = ''Others''"
    by (simp add: getCategoryForExtension_def map_find_extensionCategories)
qed

text \<open>The classifier at \<^verbatim>\<open>.txt\<close>, which is in the table, and at \<^verbatim>\<open>.xyz\<close>, which is not.\<close>

theorem getCategoryForExtension_table_witness:
  "(''.txt'', ''Documents'') \<in> set category_assignments \<and>
   getCategoryForExtension ''.txt'' = ''Documents'' \<and>
   ''.xyz'' \<notin> fst ` set category_assignments \<and>
   getCategoryForExtension ''.xyz'' = ''Others''"
proof -
  have 1: "(''.txt'', ''Documents'') \<in> set category_assignments"
    by (simp add: category_assignments_def)
  have 2: "''.xyz'' \<notin> fst ` set category_assignments"
    by (simp add: category_assignments_def)
  from 1 2 getCategoryForExtension_table [of "''.txt''" "''Documents''" "''.xyz''"]
  show ?thesis by simp
qed

lemma category_txt: "getCategoryForExtension ''.txt'' = ''Documents''"
  by (simp add: getCategoryForExtension_def map_find_extensionCategories category_assignments_def)

lemma category_png: "getCategoryForExtension ''.png'' = ''Images''"
  by (simp add: getCategoryForExtension_def map_find_extensionCategories category_assignments_def)

section \<open>Search by name\<close>

lemma find_str_empty: "find_str s [] = Some 0"
  by (cases s) simp_all

lemma find_str_sublist: "find_str s t \<noteq> None \<longleftrightarrow> sublist t s"
proof (induction s)
  case Nil
  show ?case by simp
next
  case (Cons c cs)
  then show ?case
    by (auto simp: sublist_Cons_right split: option.splits)
qed

lemma searchByName_loop_filter:
  "fst (searchByName_loop files t (acc, L)) =
     acc @ filter (\<lambda>file. find_str (toLowercase (name file)) t \<noteq> None) files"
  by (induction files arbitrary: acc L) (simp_all add: Let_def)

lemma searchByName_filter:
  "fst (searchByName files searchTerm L) =
     filter (\<lambda>file. find_str (toLowercase (name file)) (toLowercase searchTerm) \<noteq> None) files"
proof -
  obtain r L1 where
    loop: "searchByName_loop files (toLowercase searchTerm)
             ([], Logger_log (''Searching for files containing: '' @ searchTerm) L) = (r, L1)"
    by (cases "searchByName_loop files (toLowercase searchTerm)
             ([], Logger_log (''Searching for files containing: '' @ searchTerm) L)")
  from searchByName_loop_filter [of files "toLowercase searchTerm" "[]"
         "Logger_log (''Searching for files containing: '' @ searchTerm) L"] loop
  have "r = filter (\<lambda>file. find_str (toLowercase (name file)) (toLowercase searchTerm) \<noteq> None) files"
    by simp
  with loop show ?thesis
    by (simp add: searchByName_def Let_def)
qed

lemma toLowercase_REPORT: "toLowercase ''REPORT'' = ''report''"
  by (simp add: toLowercase_def tolower_def char_of_def bit_0)

text \<open>
  C6. \<^verbatim>\<open>searchByName\<close> returns, in the order of the input, the records whose name in
  lower case contains the search term in lower case. Searching \<^verbatim>\<open>REPORT\<close> among records
  named \<^verbatim>\<open>report.txt\<close>, \<^verbatim>\<open>Report_2024.pdf\<close> and \<^verbatim>\<open>summary.doc\<close> returns the first two, in
  that order, whatever their other fields are.
\<close>

theorem searchByName_case_insensitive:
  "fst (searchByName files searchTerm L) =
     filter (\<lambda>file. sublist (toLowercase searchTerm) (toLowercase (name file))) files \<and>
   fst (searchByName
          [a\<lparr>name := ''report.txt''\<rparr>, b\<lparr>name := ''Report_2024.pdf''\<rparr>,
           c\<lparr>name := ''summary.doc''\<rparr>] ''REPORT'' L) =
     [a\<lparr>name := ''report.txt''\<rparr>, b\<lparr>name := ''Report_2024.pdf''\<rparr>]"
proof
  show "fst (searchByName files searchTerm L) =
     filter (\<lambda>file. sublist (toLowercase searchTerm) (toLowercase (name file))) files"
    by (simp only: searchByName_filter find_str_sublist)
next
  have 1: "find_str (toLowercase ''report.txt'') ''report'' \<noteq> None"
    by (simp add: toLowercase_def tolower_def char_of_def bit_0)
  have 2: "find_str (toLowercase ''Report_2024.pdf'') ''report'' \<noteq> None"
    by (simp add: toLowercase_def tolower_def char_of_def bit_0)
  have 3: "find_str (toLowercase ''summary.doc'') ''report'' = None"
    by (simp add: toLowercase_def tolower_def char_of_def bit_0)
  show "fst (searchByName
          [a\<lparr>name := ''report.txt''\<rparr>, b\<lparr>name := ''Report_2024.pdf''\<rparr>,
           c\<lparr>name := ''summary.doc''\<rparr>] ''REPORT'' L) =
     [a\<lparr>name := ''report.txt''\<rparr>, b\<lparr>name := ''Report_2024.pdf''\<rparr>]"
    unfolding searchByName_filter toLowercase_REPORT using 1 2 3 by simp
qed

text \<open>
  C8. With the empty string as the term, \<^verbatim>\<open>searchByName\<close> returns every record of the
  collection. The empty term is refused by \<^verbatim>\<open>Menu::handleSearchFiles\<close>, which then does
  not call the searcher.
\<close>

theorem searchByName_empty_term:
  "fst (searchByName files '''' L) = files \<and>
   handleSearchFiles files '''' L =
     (if files = [] then NoFilesScanned else EmptyTermRejected, L)"
  by (simp add: searchByName_filter toLowercase_def find_str_empty handleSearchFiles_def)

section \<open>Duplicate groups\<close>

text \<open>
  After the first loop the entry of a fingerprint holds the records with that
  fingerprint, in the order of the input; the second loop keeps the entries of two or
  more records.
\<close>

lemma group_by_hash_sorted:
  "sorted_wrt (<) (map fst m) \<Longrightarrow> sorted_wrt (<) (map fst (group_by_hash files m))"
  by (induction files arbitrary: m) (simp_all add: map_subscript_sorted)

lemma map_find_group_by_hash:
  "sorted_wrt (<) (map fst m) \<Longrightarrow>
   map_find h (group_by_hash files m) =
     (if map_find h m = None \<and> filter (\<lambda>file. generateSimpleHash file = h) files = []
      then None
      else Some ((case map_find h m of None \<Rightarrow> [] | Some g \<Rightarrow> g) @
                 filter (\<lambda>file. generateSimpleHash file = h) files))"
proof (induction files arbitrary: m)
  case Nil
  show ?case by (cases "map_find h m") simp_all
next
  case (Cons f fs)
  let ?m' = "map_subscript (generateSimpleHash f) [] (\<lambda>grp. grp @ [f]) m"
  have "sorted_wrt (<) (map fst ?m')"
    using Cons.prems by (rule map_subscript_sorted)
  from Cons.IH [OF this] Cons.prems show ?case
    by (auto simp: map_find_map_subscript split: option.splits)
qed

lemma filter_groups_sorted:
  "sorted_wrt (<) (map fst acc) \<Longrightarrow>
   sorted_wrt (<) (map fst (fst (filter_groups hg (acc, L))))"
proof (induction hg arbitrary: acc L)
  case Nil
  then show ?case by simp
next
  case (Cons p hg)
  obtain h grp where p: "p = (h, grp)" by (cases p)
  from Cons p show ?case
    by (simp add: map_subscript_sorted)
qed

lemma map_find_filter_groups:
  "sorted_wrt (<) (map fst hg) \<Longrightarrow> sorted_wrt (<) (map fst acc) \<Longrightarrow>
   map_find h (fst (filter_groups hg (acc, L))) =
     (case map_find h hg of
        None \<Rightarrow> map_find h acc
      | Some g \<Rightarrow> if 2 \<le> length g then Some g else map_find h acc)"
proof (induction hg arbitrary: acc L)
  case Nil
  show ?case by simp
next
  case (Cons p hg)
  obtain h0 grp where p: "p = (h0, grp)" by (cases p)
  from Cons.prems(1) p have tl: "sorted_wrt (<) (map fst hg)"
    and hd: "\<forall>x \<in> fst ` set hg. h0 < x"
    by simp_all
  from hd have "h0 \<notin> fst ` set hg" by auto
  then have none: "map_find h0 hg = None"
    by (simp only: map_find_None_iff not_False_eq_True)
  show ?case
  proof (cases "2 \<le> length grp")
    case True
    let ?acc' = "map_subscript h0 [] (\<lambda>_. grp) acc"
    have "sorted_wrt (<) (map fst ?acc')"
      using Cons.prems(2) by (rule map_subscript_sorted)
    from Cons.IH [OF tl this] True p none Cons.prems(2) show ?thesis
      by (auto simp: map_find_map_subscript split: option.splits)
  next
    case False
    from Cons.IH [OF tl Cons.prems(2)] False p none show ?thesis
      by (auto split: option.splits)
  qed
qed

lemma findDuplicates_sorted:
  "sorted_wrt (<) (map fst (fst (findDuplicates files L)))"
proof -
  have "sorted_wrt (<) (map fst (fst (filter_groups (group_by_hash files []) ([], L'))))" for L'
    by (rule filter_groups_sorted) simp
  then show ?thesis
    by (simp add: findDuplicates_def Let_def split: prod.splits)
       (metis fst_conv)
qed

lemma map_find_findDuplicates:
  "map_find h (fst (findDuplicates files L)) =
     (if 2 \<le> length (filter (\<lambda>file. generateSimpleHash file = h) files)
      then Some (filter (\<lambda>file. generateSimpleHash file = h) files) else None)"
proof -
  have s: "sorted_wrt (<) (map fst (group_by_hash files []))"
    by (rule group_by_hash_sorted) simp
  have "map_find h (fst (filter_groups (group_by_hash files []) ([], L'))) =
     (if 2 \<le> length (filter (\<lambda>file. generateSimpleHash file = h) files)
      then Some (filter (\<lambda>file. generateSimpleHash file = h) files) else None)" for L'
    by (simp add: map_find_filter_groups [OF s] map_find_group_by_hash)
  then show ?thesis
    by (simp add: findDuplicates_def Let_def split: prod.splits)
       (metis fst_conv)
qed

lemma in_findDuplicates_iff:
  "(h, g) \<in> set (fst (findDuplicates files L)) \<longleftrightarrow>
     g = filter (\<lambda>file. generateSimpleHash file = h) files \<and> 2 \<le> length g"
proof -
  have "distinct (map fst (fst (findDuplicates files L)))"
    using findDuplicates_sorted [of files L] by (simp only: strict_sorted_iff)
  then have "(h, g) \<in> set (fst (findDuplicates files L)) \<longleftrightarrow>
             map_find h (fst (findDuplicates files L)) = Some g"
    by (simp only: map_find_Some_iff)
  then show ?thesis
    by (auto simp: map_find_findDuplicates)
qed

lemma filter_length_le_1:
  assumes "distinct (map k xs)" and same: "\<And>x y. P x \<Longrightarrow> P y \<Longrightarrow> k x = k y"
  shows "length (filter P xs) \<le> 1"
  using assms(1)
proof (induction xs)
  case Nil
  show ?case by simp
next
  case (Cons x xs)
  from Cons.prems have dist: "distinct (map k xs)" and fresh: "k x \<notin> k ` set xs"
    by simp_all
  show ?case
  proof (cases "P x")
    case True
    have "filter P xs = []"
    proof (rule ccontr)
      assume "filter P xs \<noteq> []"
      then obtain y where y: "y \<in> set xs" and "P y"
        by (auto simp: filter_empty_conv)
      from same [OF True \<open>P y\<close>] have "k x = k y" .
      with y fresh show False by blast
    qed
    with True show ?thesis by simp
  next
    case False
    with Cons.IH [OF dist] show ?thesis by simp
  qed
qed

lemma filter_length_ge_2:
  assumes "i < j" and "j < length xs" and "P (xs ! i)" and "P (xs ! j)"
  shows "2 \<le> length (filter P xs)"
proof -
  have xs: "xs = take j xs @ drop j xs" by simp
  have "xs ! i = take j xs ! i" and "i < length (take j xs)"
    using assms(1,2) by simp_all
  then have "xs ! i \<in> set (take j xs)"
    by (simp only: nth_mem)
  with assms(3) have 1: "filter P (take j xs) \<noteq> []"
    by (auto simp: filter_empty_conv)
  have "drop j xs = xs ! j # drop (Suc j) xs"
    using assms(2) by (simp add: Cons_nth_drop_Suc)
  then have "xs ! j \<in> set (drop j xs)"
    by simp
  with assms(4) have 2: "filter P (drop j xs) \<noteq> []"
    by (auto simp: filter_empty_conv)
  have "length (filter P xs) = length (filter P (take j xs)) + length (filter P (drop j xs))"
    by (subst xs) (simp only: filter_append length_append)
  moreover from 1 have "1 \<le> length (filter P (take j xs))"
    by (cases "filter P (take j xs)") simp_all
  moreover from 2 have "1 \<le> length (filter P (drop j xs))"
    by (cases "filter P (drop j xs)") simp_all
  ultimately show ?thesis by linarith
qed

text \<open>
  C4. Every group \<^verbatim>\<open>findDuplicates\<close> returns has two or more members. When the records
  have pairwise distinct pairs of size and name, it returns no group. Two records of the
  input (at positions \<open>i < j\<close>) with the same size and the same name are both in the
  group stored under their fingerprint, and that is the only group either of them is
  in.
\<close>

theorem findDuplicates_groups:
  "((k, grp) \<in> set (fst (findDuplicates files L)) \<longrightarrow> 2 \<le> length grp) \<and>
   (distinct (map (\<lambda>file. (size_f file, name file)) files) \<longrightarrow>
      fst (findDuplicates files L) = []) \<and>
   (i < j \<and> j < length files \<and>
    size_f (files ! i) = size_f (files ! j) \<and> name (files ! i) = name (files ! j) \<longrightarrow>
      (\<exists>g. (generateSimpleHash (files ! i), g) \<in> set (fst (findDuplicates files L)) \<and>
           files ! i \<in> set g \<and> files ! j \<in> set g \<and>
           (\<forall>h' g'. (h', g') \<in> set (fst (findDuplicates files L)) \<and>
                    (files ! i \<in> set g' \<or> files ! j \<in> set g') \<longrightarrow>
                    h' = generateSimpleHash (files ! i) \<and> g' = g)))"
proof (intro conjI impI)
  assume "(k, grp) \<in> set (fst (findDuplicates files L))"
  then show "2 \<le> length grp"
    unfolding in_findDuplicates_iff by blast
next
  assume d: "distinct (map (\<lambda>file. (size_f file, name file)) files)"
  show "fst (findDuplicates files L) = []"
  proof (cases "fst (findDuplicates files L)")
    case Nil
    then show ?thesis .
  next
    case (Cons p ps)
    obtain h0 g0 where "p = (h0, g0)" by (cases p)
    with Cons have "(h0, g0) \<in> set (fst (findDuplicates files L))" by simp
    then have "2 \<le> length (filter (\<lambda>file. generateSimpleHash file = h0) files)"
      unfolding in_findDuplicates_iff by blast
    moreover have "length (filter (\<lambda>file. generateSimpleHash file = h0) files) \<le> 1"
    proof (rule filter_length_le_1 [OF d])
      fix x y
      assume "generateSimpleHash x = h0" and "generateSimpleHash y = h0"
      then have "generateSimpleHash x = generateSimpleHash y" by simp
      then show "(size_f x, name x) = (size_f y, name y)"
        by (simp only: generateSimpleHash_eq_iff)
    qed
    ultimately show ?thesis by simp
  qed
next
  assume a: "i < j \<and> j < length files \<and>
    size_f (files ! i) = size_f (files ! j) \<and> name (files ! i) = name (files ! j)"
  let ?h = "generateSimpleHash (files ! i)"
  let ?g = "filter (\<lambda>file. generateSimpleHash file = ?h) files"
  from a have same: "generateSimpleHash (files ! j) = ?h"
    by (simp add: generateSimpleHash_eq_iff)
  from a same have len: "2 \<le> length ?g"
    by (intro filter_length_ge_2 [of i j]) simp_all
  then have 1: "(?h, ?g) \<in> set (fst (findDuplicates files L))"
    by (simp add: in_findDuplicates_iff)
  from a same have 2: "files ! i \<in> set ?g" and 3: "files ! j \<in> set ?g"
    by simp_all
  have 4: "h' = ?h \<and> g' = ?g"
    if "(h', g') \<in> set (fst (findDuplicates files L)) \<and>
        (files ! i \<in> set g' \<or> files ! j \<in> set g')" for h' g'
  proof -
    from that have g': "g' = filter (\<lambda>file. generateSimpleHash file = h') files"
      and mem: "files ! i \<in> set g' \<or> files ! j \<in> set g'"
      unfolding in_findDuplicates_iff by blast+
    from mem same have "h' = ?h"
      unfolding g' by auto
    with g' show ?thesis by simp
  qed
  from 1 2 3 4 show "\<exists>g. (?h, g) \<in> set (fst (findDuplicates files L)) \<and>
           files ! i \<in> set g \<and> files ! j \<in> set g \<and>
           (\<forall>h' g'. (h', g') \<in> set (fst (findDuplicates files L)) \<and>
                    (files ! i \<in> set g' \<or> files ! j \<in> set g') \<longrightarrow>
                    h' = ?h \<and> g' = g)"
    by blast
qed

lemmas example_defs =
  example_world_def example_world_organized_def example_a_def example_c_def example_gone_def
  example_a_copy_def example_logger_def FileInfo_init_def

text \<open>
  Two records with the same name and size and a third one between them; and two
  records with different names.
\<close>

theorem findDuplicates_groups_witness:
  "(''10_a.txt'', [example_a, example_a_copy])
     \<in> set (fst (findDuplicates [example_a, example_c, example_a_copy] example_logger)) \<and>
   2 \<le> length [example_a, example_a_copy] \<and>
   distinct (map (\<lambda>file. (size_f file, name file)) [example_a, example_c]) \<and>
   fst (findDuplicates [example_a, example_c] example_logger) = [] \<and>
   (0::nat) < 2 \<and> 2 < length [example_a, example_c, example_a_copy] \<and>
   size_f ([example_a, example_c, example_a_copy] ! 0) =
     size_f ([example_a, example_c, example_a_copy] ! 2) \<and>
   name ([example_a, example_c, example_a_copy] ! 0) =
     name ([example_a, example_c, example_a_copy] ! 2) \<and>
   (\<exists>g. (generateSimpleHash ([example_a, example_c, example_a_copy] ! 0), g)
          \<in> set (fst (findDuplicates [example_a, example_c, example_a_copy] example_logger)) \<and>
        [example_a, example_c, example_a_copy] ! 0 \<in> set g \<and>
        [example_a, example_c, example_a_copy] ! 2 \<in> set g)"
proof -
  note T = findDuplicates_groups
  have m: "(''10_a.txt'', [example_a, example_a_copy])
     \<in> set (fst (findDuplicates [example_a, example_c, example_a_copy] example_logger))"
    by (simp add: findDuplicates_def generateSimpleHash_def to_string.simps digit_char_def
        Logger_log_def Let_def example_defs)
  have d: "distinct (map (\<lambda>file. (size_f file, name file)) [example_a, example_c])"
    by (simp add: example_defs)
  have p: "(0::nat) < 2 \<and> 2 < length [example_a, example_c, example_a_copy] \<and>
   size_f ([example_a, example_c, example_a_copy] ! 0) =
     size_f ([example_a, example_c, example_a_copy] ! 2) \<and>
   name ([example_a, example_c, example_a_copy] ! 0) =
     name ([example_a, example_c, example_a_copy] ! 2)"
    by (simp add: example_defs)
  from m d p
    T [where files = "[example_a, example_c]" and L = example_logger]
    T [where files = "[example_a, example_c, example_a_copy]" and L = example_logger
         and i = 0 and j = 2 and k = "''10_a.txt''" and grp = "[example_a, example_a_copy]"]
  show ?thesis by blast
qed

section \<open>Reorganizing\<close>

subsection \<open>One record, and the loop\<close>

lemma createDirectoryIfNotExists_exists:
  "fs_exists P w d = Inr True \<Longrightarrow> createDirectoryIfNotExists P d (w, L) = ((w, L), Inr True)"
  by (simp add: createDirectoryIfNotExists_def)

lemma organize_file_skip:
  assumes "fs_exists P w (categoryPath_of base f) = Inr True"
    and "fs_exists P w (destPath_of base f) = Inr True"
  shows "organize_file P f base (w, L) =
           ((w, Logger_log (''SKIPPED: File already exists: '' @ destPath_of base f) L),
            Inr False)"
  using assms
  by (simp add: organize_file_def organize_try_def createDirectoryIfNotExists_exists)

lemma organize_loop_append:
  "organize_loop P (xs @ ys) base n st =
     (case organize_loop P xs base n st of
        (st1, Inl e) \<Rightarrow> (st1, Inl e)
      | (st1, Inr n1) \<Rightarrow> organize_loop P ys base n1 st1)"
proof (induction xs arbitrary: n st)
  case Nil
  show ?case by simp
next
  case (Cons x xs)
  show ?case
  proof (cases "organize_file P x base st")
    case (Pair st1 r)
    then show ?thesis
      by (cases r) (simp_all add: Cons.IH)
  qed
qed

lemma createDirectoryIfNotExists_logger:
  "fst (fst (createDirectoryIfNotExists P d (w, L))) =
     fst (fst (createDirectoryIfNotExists P d (w, L'))) \<and>
   snd (createDirectoryIfNotExists P d (w, L)) = snd (createDirectoryIfNotExists P d (w, L'))"
  by (simp add: createDirectoryIfNotExists_def split: sum.splits exn.splits bool.splits prod.splits)

lemma organize_try_logger:
  "fst (fst (organize_try P f base (w, L))) = fst (fst (organize_try P f base (w, L'))) \<and>
   snd (organize_try P f base (w, L)) = snd (organize_try P f base (w, L'))"
proof -
  let ?cp = "categoryPath_of base f"
  obtain w1 L1 r where c: "createDirectoryIfNotExists P ?cp (w, L) = ((w1, L1), r)"
    by (metis surj_pair)
  obtain w1' L1' r' where c': "createDirectoryIfNotExists P ?cp (w, L') = ((w1', L1'), r')"
    by (metis surj_pair)
  from createDirectoryIfNotExists_logger [of P ?cp w L L'] c c'
  have eq: "w1' = w1" "r' = r" by simp_all
  show ?thesis
    unfolding organize_try_def Let_def c c' eq
    by (simp split: sum.splits exn.splits bool.splits prod.splits)
qed

lemma organize_file_logger:
  "fst (fst (organize_file P f base (w, L))) = fst (fst (organize_file P f base (w, L'))) \<and>
   snd (organize_file P f base (w, L)) = snd (organize_file P f base (w, L'))"
proof -
  obtain w1 L1 r where c: "organize_try P f base (w, L) = ((w1, L1), r)"
    by (metis surj_pair)
  obtain w1' L1' r' where c': "organize_try P f base (w, L') = ((w1', L1'), r')"
    by (metis surj_pair)
  from organize_try_logger [of P f base w L L'] c c'
  have eq: "w1' = w1" "r' = r" by simp_all
  show ?thesis
    unfolding organize_file_def c c' eq
    by (simp split: sum.splits exn.splits bool.splits prod.splits)
qed

lemma organize_loop_logger:
  "fst (fst (organize_loop P fs base n (w, L))) = fst (fst (organize_loop P fs base n (w, L'))) \<and>
   snd (organize_loop P fs base n (w, L)) = snd (organize_loop P fs base n (w, L'))"
proof (induction fs arbitrary: n w L L')
  case Nil
  show ?case by simp
next
  case (Cons f fs)
  obtain w1 L1 r where c: "organize_file P f base (w, L) = ((w1, L1), r)"
    by (metis surj_pair)
  obtain w1' L1' r' where c': "organize_file P f base (w, L') = ((w1', L1'), r')"
    by (metis surj_pair)
  from organize_file_logger [of P f base w L L'] c c'
  have eq: "w1' = w1" "r' = r" by simp_all
  show ?case
  proof (cases r)
    case (Inl e)
    with c c' eq show ?thesis by simp
  next
    case (Inr moved)
    with c c' eq Cons.IH [of "if moved then n + 1 else n" w1 L1 L1'] show ?thesis by simp
  qed
qed

lemma organizeByExtension_loop:
  "fst (fst (organizeByExtension P files base (w, L))) =
     fst (fst (organize_loop P files base 0
                 (w, Logger_log (''Starting file organization in: '' @ base) L))) \<and>
   snd (organizeByExtension P files base (w, L)) =
     snd (organize_loop P files base 0
            (w, Logger_log (''Starting file organization in: '' @ base) L))"
  by (simp add: organizeByExtension_def split: prod.splits sum.splits)

lemma organize_loop_skip_record:
  assumes pre: "organize_loop P pre base 0
                  (w0, Logger_log (''Starting file organization in: '' @ base) L0) =
                ((w, L), Inr n)"
    and cat: "fs_exists P w (categoryPath_of base f) = Inr True"
    and dest: "fs_exists P w (destPath_of base f) = Inr True"
  shows "organize_file P f base (w, L) =
           ((w, Logger_log (''SKIPPED: File already exists: '' @ destPath_of base f) L),
            Inr False) \<and>
         organize_loop P (pre @ f # post) base 0
           (w0, Logger_log (''Starting file organization in: '' @ base) L0) =
         organize_loop P post base n
           (w, Logger_log (''SKIPPED: File already exists: '' @ destPath_of base f) L) \<and>
         fst (fst (organizeByExtension P (pre @ f # post) base (w0, L0))) =
           fst (fst (organizeByExtension P (pre @ post) base (w0, L0))) \<and>
         snd (organizeByExtension P (pre @ f # post) base (w0, L0)) =
           snd (organizeByExtension P (pre @ post) base (w0, L0))"
proof -
  define st0 where "st0 = (w0, Logger_log (''Starting file organization in: '' @ base) L0)"
  define L' where "L' = Logger_log (''SKIPPED: File already exists: '' @ destPath_of base f) L"
  from pre have pre': "organize_loop P pre base 0 st0 = ((w, L), Inr n)"
    by (simp only: st0_def)
  have skip: "organize_file P f base (w, L) = ((w, L'), Inr False)"
    unfolding L'_def using cat dest by (rule organize_file_skip)
  have with_f: "organize_loop P (pre @ f # post) base 0 st0 = organize_loop P post base n (w, L')"
    by (simp add: organize_loop_append pre' skip)
  have without_f: "organize_loop P (pre @ post) base 0 st0 = organize_loop P post base n (w, L)"
    by (simp add: organize_loop_append pre')
  from organize_loop_logger [of P post base n w L' L]
  have "fst (fst (organize_loop P (pre @ f # post) base 0 st0)) =
          fst (fst (organize_loop P (pre @ post) base 0 st0))"
    and "snd (organize_loop P (pre @ f # post) base 0 st0) =
          snd (organize_loop P (pre @ post) base 0 st0)"
    unfolding with_f without_f by simp_all
  then have "fst (fst (organizeByExtension P (pre @ f # post) base (w0, L0))) =
           fst (fst (organizeByExtension P (pre @ post) base (w0, L0)))"
    and "snd (organizeByExtension P (pre @ f # post) base (w0, L0)) =
           snd (organizeByExtension P (pre @ post) base (w0, L0))"
    by (simp_all only: organizeByExtension_loop st0_def)
  with skip with_f show ?thesis
    unfolding st0_def L'_def by blast
qed

lemma organize_file_skip_after_check:
  assumes "createDirectoryIfNotExists P (categoryPath_of base f) st = ((w1, L1), Inr True)"
    and "fs_exists P w1 (destPath_of base f) = Inr True"
  shows "organize_file P f base st =
           ((w1, Logger_log (''SKIPPED: File already exists: '' @ destPath_of base f) L1),
            Inr False)"
  using assms by (simp add: organize_file_def organize_try_def)

lemma organize_loop_all_skipped:
  assumes "\<forall>f \<in> set files. fs_exists P w (categoryPath_of base f) = Inr True \<and>
                            fs_exists P w (destPath_of base f) = Inr True"
  shows "organize_loop P files base n (w, L) =
           ((w, foldl (\<lambda>L' f. Logger_log (''SKIPPED: File already exists: '' @
                                            destPath_of base f) L') L files),
            Inr n)"
  using assms
proof (induction files arbitrary: L)
  case Nil
  show ?case by simp
next
  case (Cons f fs)
  from Cons.prems have "organize_file P f base (w, L) =
      ((w, Logger_log (''SKIPPED: File already exists: '' @ destPath_of base f) L), Inr False)"
    by (intro organize_file_skip) simp_all
  moreover from Cons.prems have "\<forall>f \<in> set fs. fs_exists P w (categoryPath_of base f) = Inr True \<and>
                            fs_exists P w (destPath_of base f) = Inr True"
    by simp
  ultimately show ?case
    by (simp add: Cons.IH)
qed

lemma to_string_0: "to_string 0 = ''0''"
  by (simp add: to_string.simps digit_char_def)

lemma createDirectoryIfNotExists_no_propagation:
  assumes "throws_only_filesystem_error P"
  shows "\<exists>st' ok. createDirectoryIfNotExists P d st = (st', Inr ok)"
proof -
  obtain w L where st: "st = (w, L)" by (cases st)
  from assms have e: "fs_exists P w d \<noteq> Inl other_exception"
    and c: "snd (fs_create_directories P w d) \<noteq> Inl other_exception"
    by (simp_all add: throws_only_filesystem_error_def)
  from e c show ?thesis
    unfolding st createDirectoryIfNotExists_def
    by (auto split: sum.splits exn.splits bool.splits prod.splits)
qed

lemma organize_file_no_propagation:
  assumes "throws_only_filesystem_error P"
  shows "\<exists>st' moved. organize_file P f base st = (st', Inr moved)"
proof -
  obtain w1 L1 ok where
    c: "createDirectoryIfNotExists P (categoryPath_of base f) st = ((w1, L1), Inr ok)"
    using createDirectoryIfNotExists_no_propagation [OF assms, of "categoryPath_of base f" st]
    by auto
  from assms have e: "fs_exists P w1 (destPath_of base f) \<noteq> Inl other_exception"
    and r: "snd (fs_rename P w1 (path f) (destPath_of base f)) \<noteq> Inl other_exception"
    by (simp_all add: throws_only_filesystem_error_def)
  from e r show ?thesis
    unfolding organize_file_def organize_try_def Let_def c
    by (auto split: sum.splits exn.splits bool.splits prod.splits)
qed

lemma organize_loop_no_propagation:
  assumes "throws_only_filesystem_error P"
  shows "\<exists>st' m. organize_loop P fs base n st = (st', Inr m) \<and> n \<le> m \<and> m \<le> n + int (length fs)"
proof (induction fs arbitrary: n st)
  case Nil
  show ?case by simp
next
  case (Cons f fs)
  from organize_file_no_propagation [OF assms, of f base st]
  obtain st1 moved where s: "organize_file P f base st = (st1, Inr moved)" by blast
  from Cons.IH [of "if moved then n + 1 else n" st1]
  obtain st' m where "organize_loop P fs base (if moved then n + 1 else n) st1 = (st', Inr m)"
    and "(if moved then n + 1 else n) \<le> m"
    and "m \<le> (if moved then n + 1 else n) + int (length fs)"
    by blast
  with s show ?case
    by (cases moved) auto
qed

lemma createDirectoryIfNotExists_catches:
  assumes "fs_exists P w d = Inr False"
    and "fs_create_directories P w d = (w1, Inl (filesystem_error e))"
  shows "createDirectoryIfNotExists P d (w, L) =
           ((w1, Logger_log (''ERROR creating directory '' @ d @ '': '' @ e) L), Inr False)"
  using assms by (simp add: createDirectoryIfNotExists_def)

lemma organize_file_create_failed:
  assumes "createDirectoryIfNotExists P (categoryPath_of base f) st = ((w1, L1), Inr False)"
  shows "organize_file P f base st =
           ((w1, Logger_log (''ERROR: Failed to create directory: '' @
                             categoryPath_of base f) L1),
            Inr False)"
  using assms by (simp add: organize_file_def organize_try_def)

lemma organize_file_exists_error:
  assumes "createDirectoryIfNotExists P (categoryPath_of base f) st = ((w1, L1), Inr True)"
    and "fs_exists P w1 (destPath_of base f) = Inl (filesystem_error e)"
  shows "organize_file P f base st =
           ((w1, Logger_log (''ERROR moving '' @ name f @ '': '' @ e) L1), Inr False)"
  using assms by (simp add: organize_file_def organize_try_def)

lemma organize_file_rename_failed:
  assumes "createDirectoryIfNotExists P (categoryPath_of base f) st = ((w1, L1), Inr True)"
    and "fs_exists P w1 (destPath_of base f) = Inr False"
    and "fs_rename P w1 (path f) (destPath_of base f) = (w2, Inl (filesystem_error e))"
  shows "organize_file P f base st =
           ((w2, Logger_log (''ERROR moving '' @ name f @ '': '' @ e) L1), Inr False)"
  using assms by (simp add: organize_file_def organize_try_def)

lemma mem_mkdirs_no_other: "snd (mem_mkdirs qs w) \<noteq> Inl other_exception"
  by (induction qs w rule: mem_mkdirs.induct)
     (auto split: option.splits node.splits prod.splits sum.splits)

lemma mem_fs_throws_only_filesystem_error: "throws_only_filesystem_error mem_fs"
  by (auto simp: throws_only_filesystem_error_def mem_fs_def mem_rename_def mem_mkdirs_no_other
      split: option.splits)

lemmas organize_defs =
  organizeByExtension_def organize_file_def organize_try_def createDirectoryIfNotExists_def
  categoryPath_of_def destPath_of_def Logger_log_def category_txt category_png
  mem_fs_def mem_rename_def parent_path_def to_string.simps digit_char_def Let_def

subsection \<open>A destination that exists\<close>

text \<open>
  C2. A record whose destination path exists is skipped. Once
  \<^verbatim>\<open>createDirectoryIfNotExists\<close> has returned true and the destination is found to exist,
  the record is done: nothing is renamed, the message of the skip is logged, and the
  record does not count as moved. When the destination exists as the record's turn
  comes (and with it the category directory that holds it), the filesystem after the
  record is the filesystem before it, so the file at the destination and the file at the
  source are what they were; the loop goes on with the next record and the same
  count; and the filesystem and the count that \<^verbatim>\<open>organizeByExtension\<close> returns are those
  of the run without the record.
\<close>

theorem organizeByExtension_skips_existing:
  "(createDirectoryIfNotExists P (categoryPath_of base f) st = ((w1, L1), Inr True) \<and>
    fs_exists P w1 (destPath_of base f) = Inr True \<longrightarrow>
      organize_file P f base st =
        ((w1, Logger_log (''SKIPPED: File already exists: '' @ destPath_of base f) L1),
         Inr False)) \<and>
   (organize_loop P pre base 0
      (w0, Logger_log (''Starting file organization in: '' @ base) L0) = ((w, L), Inr n) \<and>
    fs_exists P w (categoryPath_of base f) = Inr True \<and>
    fs_exists P w (destPath_of base f) = Inr True \<longrightarrow>
      organize_file P f base (w, L) =
        ((w, Logger_log (''SKIPPED: File already exists: '' @ destPath_of base f) L),
         Inr False) \<and>
      organize_loop P (pre @ f # post) base 0
        (w0, Logger_log (''Starting file organization in: '' @ base) L0) =
      organize_loop P post base n
        (w, Logger_log (''SKIPPED: File already exists: '' @ destPath_of base f) L) \<and>
      fst (fst (organizeByExtension P (pre @ f # post) base (w0, L0))) =
        fst (fst (organizeByExtension P (pre @ post) base (w0, L0))) \<and>
      snd (organizeByExtension P (pre @ f # post) base (w0, L0)) =
        snd (organizeByExtension P (pre @ post) base (w0, L0)))"
proof (intro conjI impI)
  assume "createDirectoryIfNotExists P (categoryPath_of base f) st = ((w1, L1), Inr True) \<and>
    fs_exists P w1 (destPath_of base f) = Inr True"
  then have "createDirectoryIfNotExists P (categoryPath_of base f) st = ((w1, L1), Inr True)"
    and "fs_exists P w1 (destPath_of base f) = Inr True"
    by blast+
  then show "organize_file P f base st =
        ((w1, Logger_log (''SKIPPED: File already exists: '' @ destPath_of base f) L1),
         Inr False)"
    by (rule organize_file_skip_after_check)
next
  assume a: "organize_loop P pre base 0
      (w0, Logger_log (''Starting file organization in: '' @ base) L0) = ((w, L), Inr n) \<and>
    fs_exists P w (categoryPath_of base f) = Inr True \<and>
    fs_exists P w (destPath_of base f) = Inr True"
  then have pre: "organize_loop P pre base 0
      (w0, Logger_log (''Starting file organization in: '' @ base) L0) = ((w, L), Inr n)"
    and cat: "fs_exists P w (categoryPath_of base f) = Inr True"
    and dest: "fs_exists P w (destPath_of base f) = Inr True"
    by blast+
  note r = organize_loop_skip_record [OF pre cat dest, of post]
  from r show "organize_file P f base (w, L) =
        ((w, Logger_log (''SKIPPED: File already exists: '' @ destPath_of base f) L),
         Inr False)"
    by blast
  from r show "organize_loop P (pre @ f # post) base 0
        (w0, Logger_log (''Starting file organization in: '' @ base) L0) =
      organize_loop P post base n
        (w, Logger_log (''SKIPPED: File already exists: '' @ destPath_of base f) L)"
    by blast
  from r show "fst (fst (organizeByExtension P (pre @ f # post) base (w0, L0))) =
        fst (fst (organizeByExtension P (pre @ post) base (w0, L0)))"
    by blast
  from r show "snd (organizeByExtension P (pre @ f # post) base (w0, L0)) =
        snd (organizeByExtension P (pre @ post) base (w0, L0))"
    by blast
qed

text \<open>
  In \<^verbatim>\<open>/data\<close>, after \<^verbatim>\<open>a.txt\<close> was moved, the record of \<^verbatim>\<open>c.txt\<close> finds
  \<^verbatim>\<open>/data/Documents/c.txt\<close> in place.
\<close>

theorem organizeByExtension_skips_existing_witness:
  "organize_loop mem_fs [example_a] ''/data'' 0
     (example_world, Logger_log (''Starting file organization in: '' @ ''/data'') example_logger) =
     ((example_world_organized,
       \<lparr>logFile_is_open = True,
          logFile = [''Starting file organization in: /data'',
                     ''Moved: a.txt '' @ arrow @ '' Documents/'']\<rparr>), Inr 1) \<and>
   fs_exists mem_fs example_world_organized (categoryPath_of ''/data'' example_c) = Inr True \<and>
   fs_exists mem_fs example_world_organized (destPath_of ''/data'' example_c) = Inr True \<and>
   organize_file mem_fs example_c ''/data''
     (example_world_organized,
      \<lparr>logFile_is_open = True,
         logFile = [''Starting file organization in: /data'',
                    ''Moved: a.txt '' @ arrow @ '' Documents/'']\<rparr>) =
     ((example_world_organized,
       Logger_log (''SKIPPED: File already exists: '' @ destPath_of ''/data'' example_c)
         \<lparr>logFile_is_open = True,
            logFile = [''Starting file organization in: /data'',
                       ''Moved: a.txt '' @ arrow @ '' Documents/'']\<rparr>), Inr False) \<and>
   snd (organizeByExtension mem_fs ([example_a] @ example_c # [example_gone]) ''/data''
          (example_world, example_logger)) =
   snd (organizeByExtension mem_fs ([example_a] @ [example_gone]) ''/data''
          (example_world, example_logger)) \<and>
   createDirectoryIfNotExists mem_fs (categoryPath_of ''/data'' example_c)
     (example_world_organized, example_logger) =
     ((example_world_organized, example_logger), Inr True) \<and>
   organize_file mem_fs example_c ''/data'' (example_world_organized, example_logger) =
     ((example_world_organized,
       Logger_log (''SKIPPED: File already exists: '' @ destPath_of ''/data'' example_c)
         example_logger), Inr False)"
proof -
  note T = organizeByExtension_skips_existing
  have h1: "organize_loop mem_fs [example_a] ''/data'' 0
     (example_world, Logger_log (''Starting file organization in: '' @ ''/data'') example_logger) =
     ((example_world_organized,
       \<lparr>logFile_is_open = True,
          logFile = [''Starting file organization in: /data'',
                     ''Moved: a.txt '' @ arrow @ '' Documents/'']\<rparr>), Inr 1)"
    by (simp add: organize_defs example_defs)
  have h2: "fs_exists mem_fs example_world_organized (categoryPath_of ''/data'' example_c) = Inr True"
    by (simp add: organize_defs example_defs)
  have h3: "fs_exists mem_fs example_world_organized (destPath_of ''/data'' example_c) = Inr True"
    by (simp add: organize_defs example_defs)
  have h4: "createDirectoryIfNotExists mem_fs (categoryPath_of ''/data'' example_c)
     (example_world_organized, example_logger) =
     ((example_world_organized, example_logger), Inr True)"
    by (simp add: organize_defs example_defs)
  from h1 h2 h3
    T [where P = mem_fs and pre = "[example_a]" and base = "''/data''" and ?w0.0 = example_world
         and ?L0.0 = example_logger and w = example_world_organized and n = 1
         and f = example_c and post = "[example_gone]"
         and L = "\<lparr>logFile_is_open = True,
                    logFile = [''Starting file organization in: /data'',
                               ''Moved: a.txt '' @ arrow @ '' Documents/'']\<rparr>"]
  have B: "organize_file mem_fs example_c ''/data''
     (example_world_organized,
      \<lparr>logFile_is_open = True,
         logFile = [''Starting file organization in: /data'',
                    ''Moved: a.txt '' @ arrow @ '' Documents/'']\<rparr>) =
     ((example_world_organized,
       Logger_log (''SKIPPED: File already exists: '' @ destPath_of ''/data'' example_c)
         \<lparr>logFile_is_open = True,
            logFile = [''Starting file organization in: /data'',
                       ''Moved: a.txt '' @ arrow @ '' Documents/'']\<rparr>), Inr False) \<and>
   snd (organizeByExtension mem_fs ([example_a] @ example_c # [example_gone]) ''/data''
          (example_world, example_logger)) =
   snd (organizeByExtension mem_fs ([example_a] @ [example_gone]) ''/data''
          (example_world, example_logger))"
    by blast
  from h4 h3
    T [where P = mem_fs and base = "''/data''" and f = example_c
         and st = "(example_world_organized, example_logger)"
         and ?w1.0 = example_world_organized and ?L1.0 = example_logger]
  have A: "organize_file mem_fs example_c ''/data'' (example_world_organized, example_logger) =
     ((example_world_organized,
       Logger_log (''SKIPPED: File already exists: '' @ destPath_of ''/data'' example_c)
         example_logger), Inr False)"
    by blast
  from h1 h2 h3 h4 A B show ?thesis by blast
qed

subsection \<open>Records that are already organized\<close>

text \<open>
  C3. When every record of the collection already has a file at its destination path
  (in the category directory that holds it), a run of \<^verbatim>\<open>organizeByExtension\<close> moves
  nothing and returns 0: the filesystem is left as it was, and the log shows that each
  record took the skip on conflict.
\<close>

theorem organizeByExtension_idempotent:
  assumes "\<forall>f \<in> set files. fs_exists P w (categoryPath_of base f) = Inr True \<and>
                            fs_exists P w (destPath_of base f) = Inr True"
  shows "organizeByExtension P files base (w, L) =
           ((w, Logger_log ''Organization complete: 0 files moved''
                  (foldl (\<lambda>L' f. Logger_log (''SKIPPED: File already exists: '' @
                                              destPath_of base f) L')
                     (Logger_log (''Starting file organization in: '' @ base) L) files)),
            Inr 0)"
  by (simp add: organizeByExtension_def organize_loop_all_skipped [OF assms] to_string_0)

text \<open>
  A first run in \<^verbatim>\<open>/data\<close> moves \<^verbatim>\<open>a.txt\<close> and skips \<^verbatim>\<open>c.txt\<close>; a second run on the
  same records moves nothing.
\<close>

theorem organizeByExtension_idempotent_witness:
  "fs_exists mem_fs example_world_organized (categoryPath_of ''/data'' example_a) = Inr True \<and>
   fs_exists mem_fs example_world_organized (destPath_of ''/data'' example_a) = Inr True \<and>
   fs_exists mem_fs example_world_organized (categoryPath_of ''/data'' example_c) = Inr True \<and>
   fs_exists mem_fs example_world_organized (destPath_of ''/data'' example_c) = Inr True \<and>
   fst (fst (organizeByExtension mem_fs [example_a, example_c] ''/data''
               (example_world, example_logger))) = example_world_organized \<and>
   snd (organizeByExtension mem_fs [example_a, example_c] ''/data''
          (example_world, example_logger)) = Inr 1 \<and>
   fst (fst (organizeByExtension mem_fs [example_a, example_c] ''/data''
               (example_world_organized, example_logger))) = example_world_organized \<and>
   snd (organizeByExtension mem_fs [example_a, example_c] ''/data''
          (example_world_organized, example_logger)) = Inr 0"
proof -
  have e: "fs_exists mem_fs example_world_organized (categoryPath_of ''/data'' example_a) = Inr True \<and>
   fs_exists mem_fs example_world_organized (destPath_of ''/data'' example_a) = Inr True \<and>
   fs_exists mem_fs example_world_organized (categoryPath_of ''/data'' example_c) = Inr True \<and>
   fs_exists mem_fs example_world_organized (destPath_of ''/data'' example_c) = Inr True"
    by (simp add: organize_defs example_defs)
  then have h: "\<forall>f \<in> set [example_a, example_c].
      fs_exists mem_fs example_world_organized (categoryPath_of ''/data'' f) = Inr True \<and>
      fs_exists mem_fs example_world_organized (destPath_of ''/data'' f) = Inr True"
    by simp
  have first: "fst (fst (organizeByExtension mem_fs [example_a, example_c] ''/data''
               (example_world, example_logger))) = example_world_organized \<and>
   snd (organizeByExtension mem_fs [example_a, example_c] ''/data''
          (example_world, example_logger)) = Inr 1"
    by (simp add: organize_defs example_defs)
  have second: "fst (fst (organizeByExtension mem_fs [example_a, example_c] ''/data''
               (example_world_organized, example_logger))) = example_world_organized \<and>
   snd (organizeByExtension mem_fs [example_a, example_c] ''/data''
          (example_world_organized, example_logger)) = Inr 0"
    by (simp only: organizeByExtension_idempotent [OF h] fst_conv snd_conv simp_thms)
  from e first second show ?thesis by blast
qed

subsection \<open>Records that fail\<close>

text \<open>
  What \<^verbatim>\<open>organizeByExtension\<close> returns when a record was not moved: the loop goes on
  after it with the count it had, and the count of the whole run is the count before
  the record plus the count of the run over the records after it.
\<close>

lemma organizeByExtension_after_unmoved:
  assumes pre: "organize_loop P pre base 0
                  (w0, Logger_log (''Starting file organization in: '' @ base) L0) =
                ((w, L), Inr n)"
    and step: "organize_file P f base (w, L) = (st1, Inr False)"
  shows "organizeByExtension P (pre @ f # post) base (w0, L0) =
           (case organize_loop P post base n st1 of
              (st', Inl x) \<Rightarrow> (st', Inl x)
            | ((w', L'), Inr m) \<Rightarrow>
                ((w', Logger_log (''Organization complete: '' @ to_string (nat m) @
                                  '' files moved'') L'),
                 Inr m))"
proof -
  define st0 where "st0 = (w0, Logger_log (''Starting file organization in: '' @ base) L0)"
  from pre have pre': "organize_loop P pre base 0 st0 = ((w, L), Inr n)"
    by (simp only: st0_def)
  have "organize_loop P (pre @ f # post) base 0 st0 = organize_loop P post base n st1"
    by (simp add: organize_loop_append pre' step)
  then show ?thesis
    unfolding organizeByExtension_def st0_def by simp
qed

lemma organize_loop_count_shift:
  "organize_loop P fs base n st =
     (case organize_loop P fs base 0 st of
        (st', Inl x) \<Rightarrow> (st', Inl x)
      | (st', Inr m) \<Rightarrow> (st', Inr (n + m)))"
proof (induction fs arbitrary: n st)
  case Nil
  show ?case by simp
next
  case (Cons f fs)
  obtain st1 r where s: "organize_file P f base st = (st1, r)"
    by (cases "organize_file P f base st")
  show ?case
  proof (cases r)
    case (Inl e)
    with s show ?thesis by simp
  next
    case (Inr moved)
    show ?thesis
    proof (cases moved)
      case True
      from Cons.IH [of "n + 1" st1] Cons.IH [of 1 st1] s Inr True show ?thesis
        by (auto split: prod.splits sum.splits)
    next
      case False
      from Cons.IH [of n st1] s Inr False show ?thesis
        by (auto split: prod.splits sum.splits)
    qed
  qed
qed

lemma organizeByExtension_count_after_unmoved:
  assumes pre: "organize_loop P pre base 0
                  (w0, Logger_log (''Starting file organization in: '' @ base) L0) =
                ((w, L), Inr n)"
    and step: "organize_file P f base (w, L) = ((w2, L2), Inr False)"
    and rest: "snd (organizeByExtension P post base (w2, L2)) = Inr m"
  shows "snd (organizeByExtension P (pre @ f # post) base (w0, L0)) = Inr (n + m) \<and>
         fst (fst (organizeByExtension P (pre @ f # post) base (w0, L0))) =
           fst (fst (organizeByExtension P post base (w2, L2)))"
proof -
  define st0 where "st0 = (w0, Logger_log (''Starting file organization in: '' @ base) L0)"
  define Ls where "Ls = Logger_log (''Starting file organization in: '' @ base) L2"
  from pre have pre': "organize_loop P pre base 0 st0 = ((w, L), Inr n)"
    by (simp only: st0_def)
  have whole: "organize_loop P (pre @ f # post) base 0 st0 = organize_loop P post base n (w2, L2)"
    by (simp add: organize_loop_append pre' step)
  from rest have r0: "snd (organize_loop P post base 0 (w2, Ls)) = Inr m"
    by (simp only: organizeByExtension_loop Ls_def)
  from organize_loop_logger [of P post base 0 w2 L2 Ls] r0
  have r1: "snd (organize_loop P post base 0 (w2, L2)) = Inr m"
    and w1: "fst (fst (organize_loop P post base 0 (w2, L2))) =
             fst (fst (organize_loop P post base 0 (w2, Ls)))"
    by simp_all
  obtain st' where l0: "organize_loop P post base 0 (w2, L2) = (st', Inr m)"
    using r1 by (cases "organize_loop P post base 0 (w2, L2)") simp
  have ln: "organize_loop P post base n (w2, L2) = (st', Inr (n + m))"
    by (subst organize_loop_count_shift) (simp add: l0)
  have "snd (organize_loop P (pre @ f # post) base 0 st0) = Inr (n + m)"
    and "fst (fst (organize_loop P (pre @ f # post) base 0 st0)) =
         fst (fst (organize_loop P post base 0 (w2, Ls)))"
    using w1 by (simp_all add: whole ln l0)
  then show ?thesis
    by (simp only: organizeByExtension_loop st0_def Ls_def simp_thms)
qed

text \<open>
  C7. A failure for one record does not end the run. With a filesystem that reports its
  failures as \<^verbatim>\<open>fs::filesystem_error\<close>, no exception leaves \<^verbatim>\<open>organizeByExtension\<close>: it
  returns the count its loop ends with, between 0 and the number of records, and logs
  it. An exception thrown by \<^verbatim>\<open>fs::create_directories\<close> is caught and logged in
  \<^verbatim>\<open>createDirectoryIfNotExists\<close>, which returns false; a record whose category directory
  could not be created is logged and not moved; an exception thrown by \<^verbatim>\<open>fs::rename\<close>
  is caught and logged with the name of the record and the text of the error, and the
  record is not moved. After a record that was not moved the loop goes on with the next
  record and the same count. For \<^verbatim>\<open>organizeByExtension\<close> itself: when the directory of a
  record cannot be created, or its move fails, as the record's turn comes, the result of
  the run is the result of going on with the records after it, from the filesystem the
  failure left, with the error logged and the count as it was before the record; and
  the count returned for the whole collection is the count before the record plus the
  count of a run over the records after it.
\<close>

theorem organizeByExtension_isolates_failures:
  "(throws_only_filesystem_error P \<longrightarrow>
      (\<exists>w' L' k. organizeByExtension P files base (w0, L0) =
                    ((w', Logger_log (''Organization complete: '' @ to_string (nat k) @
                                      '' files moved'') L'), Inr k) \<and>
                  organize_loop P files base 0
                    (w0, Logger_log (''Starting file organization in: '' @ base) L0) =
                    ((w', L'), Inr k) \<and>
                  0 \<le> k \<and> k \<le> int (length files))) \<and>
   (fs_exists P w d = Inr False \<and>
    fs_create_directories P w d = (w1, Inl (filesystem_error e)) \<longrightarrow>
      createDirectoryIfNotExists P d (w, L) =
        ((w1, Logger_log (''ERROR creating directory '' @ d @ '': '' @ e) L), Inr False)) \<and>
   (createDirectoryIfNotExists P (categoryPath_of base f) st = ((w1, L1), Inr False) \<longrightarrow>
      organize_file P f base st =
        ((w1, Logger_log (''ERROR: Failed to create directory: '' @
                          categoryPath_of base f) L1),
         Inr False)) \<and>
   (createDirectoryIfNotExists P (categoryPath_of base f) st = ((w1, L1), Inr True) \<and>
    fs_exists P w1 (destPath_of base f) = Inr False \<and>
    fs_rename P w1 (path f) (destPath_of base f) = (w2, Inl (filesystem_error e)) \<longrightarrow>
      organize_file P f base st =
        ((w2, Logger_log (''ERROR moving '' @ name f @ '': '' @ e) L1), Inr False)) \<and>
   (organize_file P f base st = (st1, Inr False) \<longrightarrow>
      organize_loop P (f # rest) base n st = organize_loop P rest base n st1) \<and>
   (organize_loop P pre base 0
      (w0, Logger_log (''Starting file organization in: '' @ base) L0) = ((w, L), Inr n) \<and>
    createDirectoryIfNotExists P (categoryPath_of base f) (w, L) = ((w1, L1), Inr False) \<longrightarrow>
      organizeByExtension P (pre @ f # post) base (w0, L0) =
        (case organize_loop P post base n
                (w1, Logger_log (''ERROR: Failed to create directory: '' @
                                 categoryPath_of base f) L1) of
           (st', Inl x) \<Rightarrow> (st', Inl x)
         | ((w', L'), Inr m) \<Rightarrow>
             ((w', Logger_log (''Organization complete: '' @ to_string (nat m) @
                               '' files moved'') L'),
              Inr m))) \<and>
   (organize_loop P pre base 0
      (w0, Logger_log (''Starting file organization in: '' @ base) L0) = ((w, L), Inr n) \<and>
    createDirectoryIfNotExists P (categoryPath_of base f) (w, L) = ((w1, L1), Inr True) \<and>
    fs_exists P w1 (destPath_of base f) = Inr False \<and>
    fs_rename P w1 (path f) (destPath_of base f) = (w2, Inl (filesystem_error e)) \<longrightarrow>
      organizeByExtension P (pre @ f # post) base (w0, L0) =
        (case organize_loop P post base n
                (w2, Logger_log (''ERROR moving '' @ name f @ '': '' @ e) L1) of
           (st', Inl x) \<Rightarrow> (st', Inl x)
         | ((w', L'), Inr m) \<Rightarrow>
             ((w', Logger_log (''Organization complete: '' @ to_string (nat m) @
                               '' files moved'') L'),
              Inr m))) \<and>
   (organize_loop P pre base 0
      (w0, Logger_log (''Starting file organization in: '' @ base) L0) = ((w, L), Inr n) \<and>
    organize_file P f base (w, L) = ((w2, L2), Inr False) \<and>
    snd (organizeByExtension P post base (w2, L2)) = Inr m \<longrightarrow>
      snd (organizeByExtension P (pre @ f # post) base (w0, L0)) = Inr (n + m) \<and>
      fst (fst (organizeByExtension P (pre @ f # post) base (w0, L0))) =
        fst (fst (organizeByExtension P post base (w2, L2))))"
proof (intro conjI impI)
  assume only: "throws_only_filesystem_error P"
  from organize_loop_no_propagation [OF only, of files base 0
         "(w0, Logger_log (''Starting file organization in: '' @ base) L0)"]
  obtain w' L' k where
    "organize_loop P files base 0
       (w0, Logger_log (''Starting file organization in: '' @ base) L0) = ((w', L'), Inr k)"
    and "0 \<le> k" and "k \<le> int (length files)"
    by auto
  then show "\<exists>w' L' k. organizeByExtension P files base (w0, L0) =
                    ((w', Logger_log (''Organization complete: '' @ to_string (nat k) @
                                      '' files moved'') L'), Inr k) \<and>
                  organize_loop P files base 0
                    (w0, Logger_log (''Starting file organization in: '' @ base) L0) =
                    ((w', L'), Inr k) \<and>
                  0 \<le> k \<and> k \<le> int (length files)"
    unfolding organizeByExtension_def by simp
next
  assume "fs_exists P w d = Inr False \<and>
    fs_create_directories P w d = (w1, Inl (filesystem_error e))"
  then have "fs_exists P w d = Inr False"
    and "fs_create_directories P w d = (w1, Inl (filesystem_error e))"
    by blast+
  then show "createDirectoryIfNotExists P d (w, L) =
        ((w1, Logger_log (''ERROR creating directory '' @ d @ '': '' @ e) L), Inr False)"
    by (rule createDirectoryIfNotExists_catches)
next
  assume "createDirectoryIfNotExists P (categoryPath_of base f) st = ((w1, L1), Inr False)"
  then show "organize_file P f base st =
        ((w1, Logger_log (''ERROR: Failed to create directory: '' @
                          categoryPath_of base f) L1),
         Inr False)"
    by (rule organize_file_create_failed)
next
  assume "createDirectoryIfNotExists P (categoryPath_of base f) st = ((w1, L1), Inr True) \<and>
    fs_exists P w1 (destPath_of base f) = Inr False \<and>
    fs_rename P w1 (path f) (destPath_of base f) = (w2, Inl (filesystem_error e))"
  then have "createDirectoryIfNotExists P (categoryPath_of base f) st = ((w1, L1), Inr True)"
    and "fs_exists P w1 (destPath_of base f) = Inr False"
    and "fs_rename P w1 (path f) (destPath_of base f) = (w2, Inl (filesystem_error e))"
    by blast+
  then show "organize_file P f base st =
        ((w2, Logger_log (''ERROR moving '' @ name f @ '': '' @ e) L1), Inr False)"
    by (rule organize_file_rename_failed)
next
  assume "organize_file P f base st = (st1, Inr False)"
  then show "organize_loop P (f # rest) base n st = organize_loop P rest base n st1"
    by simp
next
  assume "organize_loop P pre base 0
      (w0, Logger_log (''Starting file organization in: '' @ base) L0) = ((w, L), Inr n) \<and>
    createDirectoryIfNotExists P (categoryPath_of base f) (w, L) = ((w1, L1), Inr False)"
  then have pre: "organize_loop P pre base 0
      (w0, Logger_log (''Starting file organization in: '' @ base) L0) = ((w, L), Inr n)"
    and c: "createDirectoryIfNotExists P (categoryPath_of base f) (w, L) = ((w1, L1), Inr False)"
    by blast+
  from c have "organize_file P f base (w, L) =
        ((w1, Logger_log (''ERROR: Failed to create directory: '' @
                          categoryPath_of base f) L1), Inr False)"
    by (rule organize_file_create_failed)
  with pre show "organizeByExtension P (pre @ f # post) base (w0, L0) =
        (case organize_loop P post base n
                (w1, Logger_log (''ERROR: Failed to create directory: '' @
                                 categoryPath_of base f) L1) of
           (st', Inl x) \<Rightarrow> (st', Inl x)
         | ((w', L'), Inr m) \<Rightarrow>
             ((w', Logger_log (''Organization complete: '' @ to_string (nat m) @
                               '' files moved'') L'),
              Inr m))"
    by (rule organizeByExtension_after_unmoved)
next
  assume "organize_loop P pre base 0
      (w0, Logger_log (''Starting file organization in: '' @ base) L0) = ((w, L), Inr n) \<and>
    createDirectoryIfNotExists P (categoryPath_of base f) (w, L) = ((w1, L1), Inr True) \<and>
    fs_exists P w1 (destPath_of base f) = Inr False \<and>
    fs_rename P w1 (path f) (destPath_of base f) = (w2, Inl (filesystem_error e))"
  then have pre: "organize_loop P pre base 0
      (w0, Logger_log (''Starting file organization in: '' @ base) L0) = ((w, L), Inr n)"
    and c: "createDirectoryIfNotExists P (categoryPath_of base f) (w, L) = ((w1, L1), Inr True)"
    and x: "fs_exists P w1 (destPath_of base f) = Inr False"
    and r: "fs_rename P w1 (path f) (destPath_of base f) = (w2, Inl (filesystem_error e))"
    by blast+
  from c x r have "organize_file P f base (w, L) =
        ((w2, Logger_log (''ERROR moving '' @ name f @ '': '' @ e) L1), Inr False)"
    by (rule organize_file_rename_failed)
  with pre show "organizeByExtension P (pre @ f # post) base (w0, L0) =
        (case organize_loop P post base n
                (w2, Logger_log (''ERROR moving '' @ name f @ '': '' @ e) L1) of
           (st', Inl x) \<Rightarrow> (st', Inl x)
         | ((w', L'), Inr m) \<Rightarrow>
             ((w', Logger_log (''Organization complete: '' @ to_string (nat m) @
                               '' files moved'') L'),
              Inr m))"
    by (rule organizeByExtension_after_unmoved)
next
  assume a: "organize_loop P pre base 0
      (w0, Logger_log (''Starting file organization in: '' @ base) L0) = ((w, L), Inr n) \<and>
    organize_file P f base (w, L) = ((w2, L2), Inr False) \<and>
    snd (organizeByExtension P post base (w2, L2)) = Inr m"
  then have pre: "organize_loop P pre base 0
      (w0, Logger_log (''Starting file organization in: '' @ base) L0) = ((w, L), Inr n)"
    and s: "organize_file P f base (w, L) = ((w2, L2), Inr False)"
    and r: "snd (organizeByExtension P post base (w2, L2)) = Inr m"
    by blast+
  note c = organizeByExtension_count_after_unmoved [OF pre s r]
  from c show "snd (organizeByExtension P (pre @ f # post) base (w0, L0)) = Inr (n + m)"
    by blast
  from c show "fst (fst (organizeByExtension P (pre @ f # post) base (w0, L0))) =
        fst (fst (organizeByExtension P post base (w2, L2)))"
    by blast
qed

text \<open>
  With \<^verbatim>\<open>/data/c.txt\<close>, a regular file, as the base directory no category directory can
  be created, and the run returns 0. In \<^verbatim>\<open>/data\<close> the file of \<open>example_gone\<close> is not
  there to be renamed: after \<^verbatim>\<open>a.txt\<close> was moved and \<^verbatim>\<open>c.txt\<close> skipped, the run logs
  the error and returns 1; with \<open>example_gone\<close> first, the two records after it are
  still processed and the run returns 1 again.
\<close>

theorem organizeByExtension_isolates_failures_witness:
  "throws_only_filesystem_error mem_fs \<and>
   (\<exists>w' L' k. organizeByExtension mem_fs [example_a, example_c, example_gone] ''/data''
                  (example_world, example_logger) =
                  ((w', Logger_log (''Organization complete: '' @ to_string (nat k) @
                                    '' files moved'') L'), Inr k) \<and>
                organize_loop mem_fs [example_a, example_c, example_gone] ''/data'' 0
                  (example_world,
                   Logger_log (''Starting file organization in: '' @ ''/data'') example_logger) =
                  ((w', L'), Inr k) \<and>
                0 \<le> k \<and> k \<le> int (length [example_a, example_c, example_gone])) \<and>
   fs_exists mem_fs example_world ''/data/c.txt/Documents'' = Inr False \<and>
   fs_create_directories mem_fs example_world ''/data/c.txt/Documents'' =
     (example_world, Inl (filesystem_error ''/data/c.txt: Not a directory'')) \<and>
   createDirectoryIfNotExists mem_fs ''/data/c.txt/Documents'' (example_world, example_logger) =
     ((example_world,
       Logger_log (''ERROR creating directory '' @ ''/data/c.txt/Documents'' @ '': '' @
                   ''/data/c.txt: Not a directory'') example_logger), Inr False) \<and>
   createDirectoryIfNotExists mem_fs (categoryPath_of ''/data/c.txt'' example_a)
     (example_world, example_logger) =
     ((example_world,
       \<lparr>logFile_is_open = True,
          logFile = [''ERROR creating directory /data/c.txt/Documents: /data/c.txt: Not a directory'']\<rparr>),
      Inr False) \<and>
   organize_file mem_fs example_a ''/data/c.txt'' (example_world, example_logger) =
     ((example_world,
       Logger_log (''ERROR: Failed to create directory: '' @
                   categoryPath_of ''/data/c.txt'' example_a)
         \<lparr>logFile_is_open = True,
            logFile = [''ERROR creating directory /data/c.txt/Documents: /data/c.txt: Not a directory'']\<rparr>),
      Inr False) \<and>
   createDirectoryIfNotExists mem_fs (categoryPath_of ''/data'' example_gone)
     (example_world, example_logger) =
     (((''/data/Images'', Directory) # example_world, example_logger), Inr True) \<and>
   fs_exists mem_fs ((''/data/Images'', Directory) # example_world)
     (destPath_of ''/data'' example_gone) = Inr False \<and>
   fs_rename mem_fs ((''/data/Images'', Directory) # example_world) (path example_gone)
     (destPath_of ''/data'' example_gone) =
     ((''/data/Images'', Directory) # example_world,
      Inl (filesystem_error ''/data/gone.png: No such file or directory'')) \<and>
   organize_file mem_fs example_gone ''/data'' (example_world, example_logger) =
     (((''/data/Images'', Directory) # example_world,
       Logger_log (''ERROR moving '' @ name example_gone @ '': '' @
                   ''/data/gone.png: No such file or directory'') example_logger),
      Inr False) \<and>
   organize_loop mem_fs (example_gone # [example_a]) ''/data'' 0 (example_world, example_logger) =
     organize_loop mem_fs [example_a] ''/data'' 0
       ((''/data/Images'', Directory) # example_world,
        Logger_log (''ERROR moving '' @ name example_gone @ '': '' @
                    ''/data/gone.png: No such file or directory'') example_logger) \<and>
   organize_loop mem_fs [] ''/data/c.txt'' 0
     (example_world,
      Logger_log (''Starting file organization in: '' @ ''/data/c.txt'') example_logger) =
     ((example_world,
       \<lparr>logFile_is_open = True,
          logFile = [''Starting file organization in: /data/c.txt'']\<rparr>), Inr 0) \<and>
   createDirectoryIfNotExists mem_fs (categoryPath_of ''/data/c.txt'' example_a)
     (example_world,
      \<lparr>logFile_is_open = True, logFile = [''Starting file organization in: /data/c.txt'']\<rparr>) =
     ((example_world,
       \<lparr>logFile_is_open = True,
          logFile = [''Starting file organization in: /data/c.txt'',
                     ''ERROR creating directory /data/c.txt/Documents: /data/c.txt: Not a directory'']\<rparr>),
      Inr False) \<and>
   organizeByExtension mem_fs [example_a] ''/data/c.txt'' (example_world, example_logger) =
     ((example_world,
       \<lparr>logFile_is_open = True,
          logFile = [''Starting file organization in: /data/c.txt'',
                     ''ERROR creating directory /data/c.txt/Documents: /data/c.txt: Not a directory'',
                     ''ERROR: Failed to create directory: /data/c.txt/Documents'',
                     ''Organization complete: 0 files moved'']\<rparr>),
      Inr 0) \<and>
   organize_loop mem_fs [example_a, example_c] ''/data'' 0
     (example_world,
      Logger_log (''Starting file organization in: '' @ ''/data'') example_logger) =
     ((example_world_organized,
       \<lparr>logFile_is_open = True,
          logFile = [''Starting file organization in: /data'',
                     ''Moved: a.txt '' @ arrow @ '' Documents/'',
                     ''SKIPPED: File already exists: /data/Documents/c.txt'']\<rparr>), Inr 1) \<and>
   createDirectoryIfNotExists mem_fs (categoryPath_of ''/data'' example_gone)
     (example_world_organized,
      \<lparr>logFile_is_open = True,
         logFile = [''Starting file organization in: /data'',
                    ''Moved: a.txt '' @ arrow @ '' Documents/'',
                    ''SKIPPED: File already exists: /data/Documents/c.txt'']\<rparr>) =
     (((''/data/Images'', Directory) # example_world_organized,
       \<lparr>logFile_is_open = True,
          logFile = [''Starting file organization in: /data'',
                     ''Moved: a.txt '' @ arrow @ '' Documents/'',
                     ''SKIPPED: File already exists: /data/Documents/c.txt'']\<rparr>), Inr True) \<and>
   fs_exists mem_fs ((''/data/Images'', Directory) # example_world_organized)
     (destPath_of ''/data'' example_gone) = Inr False \<and>
   fs_rename mem_fs ((''/data/Images'', Directory) # example_world_organized) (path example_gone)
     (destPath_of ''/data'' example_gone) =
     ((''/data/Images'', Directory) # example_world_organized,
      Inl (filesystem_error ''/data/gone.png: No such file or directory'')) \<and>
   organizeByExtension mem_fs [example_a, example_c, example_gone] ''/data''
     (example_world, example_logger) =
     (((''/data/Images'', Directory) # example_world_organized,
       \<lparr>logFile_is_open = True,
          logFile = [''Starting file organization in: /data'',
                     ''Moved: a.txt '' @ arrow @ '' Documents/'',
                     ''SKIPPED: File already exists: /data/Documents/c.txt'',
                     ''ERROR moving gone.png: /data/gone.png: No such file or directory'',
                     ''Organization complete: 1 files moved'']\<rparr>),
      Inr 1) \<and>
   organize_loop mem_fs [] ''/data'' 0
     (example_world,
      Logger_log (''Starting file organization in: '' @ ''/data'') example_logger) =
     ((example_world,
       \<lparr>logFile_is_open = True, logFile = [''Starting file organization in: /data'']\<rparr>),
      Inr 0) \<and>
   organize_file mem_fs example_gone ''/data''
     (example_world,
      \<lparr>logFile_is_open = True, logFile = [''Starting file organization in: /data'']\<rparr>) =
     (((''/data/Images'', Directory) # example_world,
       \<lparr>logFile_is_open = True,
          logFile = [''Starting file organization in: /data'',
                     ''ERROR moving gone.png: /data/gone.png: No such file or directory'']\<rparr>),
      Inr False) \<and>
   snd (organizeByExtension mem_fs [example_a, example_c] ''/data''
          ((''/data/Images'', Directory) # example_world,
           \<lparr>logFile_is_open = True,
              logFile = [''Starting file organization in: /data'',
                         ''ERROR moving gone.png: /data/gone.png: No such file or directory'']\<rparr>)) =
     Inr 1 \<and>
   snd (organizeByExtension mem_fs [example_gone, example_a, example_c] ''/data''
          (example_world, example_logger)) = Inr 1"
proof -
  note T = organizeByExtension_isolates_failures
  define Ls where "Ls = \<lparr>logFile_is_open = True,
                          logFile = [''Starting file organization in: /data'']\<rparr>"
  define Lc where "Lc = \<lparr>logFile_is_open = True,
                          logFile = [''Starting file organization in: /data/c.txt'']\<rparr>"
  define Lc1 where "Lc1 = \<lparr>logFile_is_open = True,
          logFile = [''Starting file organization in: /data/c.txt'',
                     ''ERROR creating directory /data/c.txt/Documents: /data/c.txt: Not a directory'']\<rparr>"
  define Lp where "Lp = \<lparr>logFile_is_open = True,
          logFile = [''Starting file organization in: /data'',
                     ''Moved: a.txt '' @ arrow @ '' Documents/'',
                     ''SKIPPED: File already exists: /data/Documents/c.txt'']\<rparr>"
  define Lg where "Lg = \<lparr>logFile_is_open = True,
          logFile = [''Starting file organization in: /data'',
                     ''ERROR moving gone.png: /data/gone.png: No such file or directory'']\<rparr>"
  note L_defs = Ls_def Lc_def Lc1_def Lp_def Lg_def
  have a: "throws_only_filesystem_error mem_fs"
    by (rule mem_fs_throws_only_filesystem_error)
  have b1: "fs_exists mem_fs example_world ''/data/c.txt/Documents'' = Inr False"
    by (simp add: organize_defs example_defs)
  have b2: "fs_create_directories mem_fs example_world ''/data/c.txt/Documents'' =
     (example_world, Inl (filesystem_error ''/data/c.txt: Not a directory''))"
    by (simp add: organize_defs example_defs)
  have c: "createDirectoryIfNotExists mem_fs (categoryPath_of ''/data/c.txt'' example_a)
     (example_world, example_logger) =
     ((example_world,
       \<lparr>logFile_is_open = True,
          logFile = [''ERROR creating directory /data/c.txt/Documents: /data/c.txt: Not a directory'']\<rparr>),
      Inr False)"
    by (simp add: organize_defs example_defs)
  have e1: "createDirectoryIfNotExists mem_fs (categoryPath_of ''/data'' example_gone)
     (example_world, example_logger) =
     (((''/data/Images'', Directory) # example_world, example_logger), Inr True)"
    by (simp add: organize_defs example_defs)
  have e2: "fs_exists mem_fs ((''/data/Images'', Directory) # example_world)
     (destPath_of ''/data'' example_gone) = Inr False"
    by (simp add: organize_defs example_defs)
  have e3: "fs_rename mem_fs ((''/data/Images'', Directory) # example_world) (path example_gone)
     (destPath_of ''/data'' example_gone) =
     ((''/data/Images'', Directory) # example_world,
      Inl (filesystem_error ''/data/gone.png: No such file or directory''))"
    by (simp add: organize_defs example_defs)
  have p6: "organize_loop mem_fs [] ''/data/c.txt'' 0
     (example_world,
      Logger_log (''Starting file organization in: '' @ ''/data/c.txt'') example_logger) =
     ((example_world, Lc), Inr 0)"
    by (simp add: Logger_log_def example_logger_def Lc_def)
  have c6: "createDirectoryIfNotExists mem_fs (categoryPath_of ''/data/c.txt'' example_a)
     (example_world, Lc) = ((example_world, Lc1), Inr False)"
    by (simp add: organize_defs example_defs L_defs)
  have p7: "organize_loop mem_fs [example_a, example_c] ''/data'' 0
     (example_world,
      Logger_log (''Starting file organization in: '' @ ''/data'') example_logger) =
     ((example_world_organized, Lp), Inr 1)"
    by (simp add: organize_defs example_defs L_defs)
  have c7: "createDirectoryIfNotExists mem_fs (categoryPath_of ''/data'' example_gone)
     (example_world_organized, Lp) =
     (((''/data/Images'', Directory) # example_world_organized, Lp), Inr True)"
    by (simp add: organize_defs example_defs)
  have x7: "fs_exists mem_fs ((''/data/Images'', Directory) # example_world_organized)
     (destPath_of ''/data'' example_gone) = Inr False"
    by (simp add: organize_defs example_defs)
  have r7: "fs_rename mem_fs ((''/data/Images'', Directory) # example_world_organized)
     (path example_gone) (destPath_of ''/data'' example_gone) =
     ((''/data/Images'', Directory) # example_world_organized,
      Inl (filesystem_error ''/data/gone.png: No such file or directory''))"
    by (simp add: organize_defs example_defs)
  have p8: "organize_loop mem_fs [] ''/data'' 0
     (example_world,
      Logger_log (''Starting file organization in: '' @ ''/data'') example_logger) =
     ((example_world, Ls), Inr 0)"
    by (simp add: Logger_log_def example_logger_def Ls_def)
  have s8: "organize_file mem_fs example_gone ''/data'' (example_world, Ls) =
     (((''/data/Images'', Directory) # example_world, Lg), Inr False)"
    by (simp add: organize_defs example_defs L_defs)
  have m8: "snd (organizeByExtension mem_fs [example_a, example_c] ''/data''
          ((''/data/Images'', Directory) # example_world, Lg)) = Inr 1"
    by (simp add: organize_defs example_defs L_defs)
  from a T [where P = mem_fs and files = "[example_a, example_c, example_gone]"
              and base = "''/data''" and ?w0.0 = example_world and ?L0.0 = example_logger]
  have A: "\<exists>w' L' k. organizeByExtension mem_fs [example_a, example_c, example_gone] ''/data''
                  (example_world, example_logger) =
                  ((w', Logger_log (''Organization complete: '' @ to_string (nat k) @
                                    '' files moved'') L'), Inr k) \<and>
                organize_loop mem_fs [example_a, example_c, example_gone] ''/data'' 0
                  (example_world,
                   Logger_log (''Starting file organization in: '' @ ''/data'') example_logger) =
                  ((w', L'), Inr k) \<and>
                0 \<le> k \<and> k \<le> int (length [example_a, example_c, example_gone])"
    by blast
  from b1 b2 T [where P = mem_fs and w = example_world and d = "''/data/c.txt/Documents''"
                  and ?w1.0 = example_world and e = "''/data/c.txt: Not a directory''"
                  and L = example_logger]
  have B: "createDirectoryIfNotExists mem_fs ''/data/c.txt/Documents'' (example_world, example_logger) =
     ((example_world,
       Logger_log (''ERROR creating directory '' @ ''/data/c.txt/Documents'' @ '': '' @
                   ''/data/c.txt: Not a directory'') example_logger), Inr False)"
    by blast
  from c T [where P = mem_fs and base = "''/data/c.txt''" and f = example_a
              and st = "(example_world, example_logger)" and ?w1.0 = example_world
              and ?L1.0 = "\<lparr>logFile_is_open = True,
          logFile = [''ERROR creating directory /data/c.txt/Documents: /data/c.txt: Not a directory'']\<rparr>"]
  have C: "organize_file mem_fs example_a ''/data/c.txt'' (example_world, example_logger) =
     ((example_world,
       Logger_log (''ERROR: Failed to create directory: '' @
                   categoryPath_of ''/data/c.txt'' example_a)
         \<lparr>logFile_is_open = True,
            logFile = [''ERROR creating directory /data/c.txt/Documents: /data/c.txt: Not a directory'']\<rparr>),
      Inr False)"
    by blast
  from e1 e2 e3 T [where P = mem_fs and base = "''/data''" and f = example_gone
              and st = "(example_world, example_logger)"
              and ?w1.0 = "(''/data/Images'', Directory) # example_world"
              and ?L1.0 = example_logger
              and ?w2.0 = "(''/data/Images'', Directory) # example_world"
              and e = "''/data/gone.png: No such file or directory''"]
  have E: "organize_file mem_fs example_gone ''/data'' (example_world, example_logger) =
     (((''/data/Images'', Directory) # example_world,
       Logger_log (''ERROR moving '' @ name example_gone @ '': '' @
                   ''/data/gone.png: No such file or directory'') example_logger),
      Inr False)"
    by blast
  from E T [where P = mem_fs and base = "''/data''" and f = example_gone
              and st = "(example_world, example_logger)"
              and ?st1.0 = "((''/data/Images'', Directory) # example_world,
       Logger_log (''ERROR moving '' @ name example_gone @ '': '' @
                   ''/data/gone.png: No such file or directory'') example_logger)"
              and rest = "[example_a]" and n = 0]
  have F: "organize_loop mem_fs (example_gone # [example_a]) ''/data'' 0 (example_world, example_logger) =
     organize_loop mem_fs [example_a] ''/data'' 0
       ((''/data/Images'', Directory) # example_world,
        Logger_log (''ERROR moving '' @ name example_gone @ '': '' @
                    ''/data/gone.png: No such file or directory'') example_logger)"
    by blast
  from p6 c6 T [where P = mem_fs and pre = "[]" and base = "''/data/c.txt''"
                  and ?w0.0 = example_world and ?L0.0 = example_logger
                  and w = example_world and L = Lc and n = 0 and f = example_a
                  and ?w1.0 = example_world and ?L1.0 = Lc1 and post = "[]"]
  have G0: "organizeByExtension mem_fs ([] @ example_a # []) ''/data/c.txt''
              (example_world, example_logger) =
        (case organize_loop mem_fs [] ''/data/c.txt'' 0
                (example_world, Logger_log (''ERROR: Failed to create directory: '' @
                                 categoryPath_of ''/data/c.txt'' example_a) Lc1) of
           (st', Inl x) \<Rightarrow> (st', Inl x)
         | ((w', L'), Inr m) \<Rightarrow>
             ((w', Logger_log (''Organization complete: '' @ to_string (nat m) @
                               '' files moved'') L'),
              Inr m))"
    by blast
  have G: "organizeByExtension mem_fs [example_a] ''/data/c.txt'' (example_world, example_logger) =
     ((example_world,
       \<lparr>logFile_is_open = True,
          logFile = [''Starting file organization in: /data/c.txt'',
                     ''ERROR creating directory /data/c.txt/Documents: /data/c.txt: Not a directory'',
                     ''ERROR: Failed to create directory: /data/c.txt/Documents'',
                     ''Organization complete: 0 files moved'']\<rparr>),
      Inr 0)"
    using G0
    by (simp add: categoryPath_of_def category_txt Logger_log_def to_string.simps digit_char_def
        example_a_def FileInfo_init_def Lc1_def)
  from p7 c7 x7 r7
    T [where P = mem_fs and pre = "[example_a, example_c]" and base = "''/data''"
         and ?w0.0 = example_world and ?L0.0 = example_logger
         and w = example_world_organized and L = Lp and n = 1 and f = example_gone
         and ?w1.0 = "(''/data/Images'', Directory) # example_world_organized" and ?L1.0 = Lp
         and ?w2.0 = "(''/data/Images'', Directory) # example_world_organized"
         and e = "''/data/gone.png: No such file or directory''" and post = "[]"]
  have H0: "organizeByExtension mem_fs ([example_a, example_c] @ example_gone # []) ''/data''
              (example_world, example_logger) =
        (case organize_loop mem_fs [] ''/data'' 1
                ((''/data/Images'', Directory) # example_world_organized,
                 Logger_log (''ERROR moving '' @ name example_gone @ '': '' @
                             ''/data/gone.png: No such file or directory'') Lp) of
           (st', Inl x) \<Rightarrow> (st', Inl x)
         | ((w', L'), Inr m) \<Rightarrow>
             ((w', Logger_log (''Organization complete: '' @ to_string (nat m) @
                               '' files moved'') L'),
              Inr m))"
    by blast
  have H: "organizeByExtension mem_fs [example_a, example_c, example_gone] ''/data''
     (example_world, example_logger) =
     (((''/data/Images'', Directory) # example_world_organized,
       \<lparr>logFile_is_open = True,
          logFile = [''Starting file organization in: /data'',
                     ''Moved: a.txt '' @ arrow @ '' Documents/'',
                     ''SKIPPED: File already exists: /data/Documents/c.txt'',
                     ''ERROR moving gone.png: /data/gone.png: No such file or directory'',
                     ''Organization complete: 1 files moved'']\<rparr>),
      Inr 1)"
    using H0
    by (simp add: Logger_log_def to_string.simps digit_char_def
        example_gone_def FileInfo_init_def Lp_def)
  from p8 s8 m8
    T [where P = mem_fs and pre = "[]" and base = "''/data''"
         and ?w0.0 = example_world and ?L0.0 = example_logger
         and w = example_world and L = Ls and n = 0 and f = example_gone
         and ?w2.0 = "(''/data/Images'', Directory) # example_world" and ?L2.0 = Lg
         and post = "[example_a, example_c]" and m = 1]
  have I0: "snd (organizeByExtension mem_fs ([] @ example_gone # [example_a, example_c]) ''/data''
          (example_world, example_logger)) = Inr (0 + 1)"
    by blast
  then have I: "snd (organizeByExtension mem_fs [example_gone, example_a, example_c] ''/data''
          (example_world, example_logger)) = Inr 1"
    by simp
  from a A b1 b2 B c C e1 e2 e3 E F p6 c6 G p7 c7 x7 r7 H p8 s8 m8 I
  show ?thesis unfolding L_defs by blast
qed

section \<open>Scanning\<close>




end
